theory Spec2Isabelle
  imports Complex_Main "HOL-Library.Sublist"
begin

section \<open>JavaScript values\<close>

text \<open>
  \<^verbatim>\<open>server.js\<close> passes JSON through: request bodies parsed by \<^verbatim>\<open>express.json()\<close>,
  the \<^verbatim>\<open>data\<close> of axios responses, the objects it hands to \<^verbatim>\<open>res.json\<close>. A value
  is a JSON value or \<^verbatim>\<open>undefined\<close>. Strings are the bytes of their UTF-8 encoding.
  The handlers do no arithmetic: a number is only passed on, compared with a literal
  or tested for zero, so it is a rational here. An object is the list of its own
  properties in lookup order.
\<close>

datatype json =
    JUndefined
  | JNull
  | JBool bool
  | JNum rat
  | JStr string
  | JArr "json list"
  | JObj "(string \<times> json) list"

text \<open>\<^verbatim>\<open>if (x)\<close>, \<^verbatim>\<open>!x\<close>, \<^verbatim>\<open>x || y\<close> and \<^verbatim>\<open>Boolean\<close>: the falsy values are
  \<^verbatim>\<open>undefined\<close>, \<^verbatim>\<open>null\<close>, \<^verbatim>\<open>false\<close>, \<^verbatim>\<open>0\<close> and \<^verbatim>\<open>''\<close>.\<close>

fun truthy :: "json \<Rightarrow> bool" where
  "truthy JUndefined = False"
| "truthy JNull = False"
| "truthy (JBool b) = b"
| "truthy (JNum n) = (n \<noteq> 0)"
| "truthy (JStr s) = (s \<noteq> [])"
| "truthy (JArr xs) = True"
| "truthy (JObj kvs) = True"

definition or_else :: "json \<Rightarrow> json \<Rightarrow> json" where
  "or_else a b = (if truthy a then a else b)"

fun nullish :: "json \<Rightarrow> bool" where
  "nullish JUndefined = True"
| "nullish JNull = True"
| "nullish v = False"

text \<open>
  Reading a property \<^verbatim>\<open>x.k\<close> of a value that is neither \<^verbatim>\<open>null\<close> nor
  \<^verbatim>\<open>undefined\<close>, for the names the handlers read (none of them is an array index or
  a method): an object gives its own property or \<^verbatim>\<open>undefined\<close>; arrays and strings
  have \<^verbatim>\<open>length\<close> only (a string's length is compared with 0 only, so the number of
  bytes stands for the number of code units); numbers and booleans have none.
\<close>

fun lookup_prop :: "json \<Rightarrow> string \<Rightarrow> json" where
  "lookup_prop (JObj kvs) k = (case map_of kvs k of Some v \<Rightarrow> v | None \<Rightarrow> JUndefined)"
| "lookup_prop (JArr xs) k = (if k = ''length'' then JNum (of_nat (length xs)) else JUndefined)"
| "lookup_prop (JStr s) k = (if k = ''length'' then JNum (of_nat (length s)) else JUndefined)"
| "lookup_prop v k = JUndefined"

text \<open>\<^verbatim>\<open>x?.k\<close> is \<^verbatim>\<open>undefined\<close> when \<^verbatim>\<open>x\<close> is \<^verbatim>\<open>null\<close> or \<^verbatim>\<open>undefined\<close>.\<close>

definition opt_chain :: "json \<Rightarrow> string \<Rightarrow> json" where
  "opt_chain x k = (if nullish x then JUndefined else lookup_prop x k)"

section \<open>Thrown errors\<close>

text \<open>
  What the \<^verbatim>\<open>catch\<close> blocks read of a thrown value: \<^verbatim>\<open>error.message\<close>,
  \<^verbatim>\<open>error.response?.status\<close>, \<^verbatim>\<open>error.response?.data\<close> and \<^verbatim>\<open>String(error)\<close>.
  axios rejects with an \<^verbatim>\<open>Error\<close> that carries \<^verbatim>\<open>response\<close> when the CRM answered
  with a status outside 2xx, and none on a network failure; a \<^verbatim>\<open>TypeError\<close> raised
  by the handler's own code carries none.
\<close>

record axios_response =
  resp_status :: nat
  resp_data :: json

record js_error =
  err_name :: string
  err_message :: string
  err_response :: "axios_response option"

definition type_error :: "string \<Rightarrow> js_error" where
  "type_error msg = \<lparr>err_name = ''TypeError'', err_message = msg, err_response = None\<rparr>"

definition show_nullish :: "json \<Rightarrow> string" where
  "show_nullish x = (if x = JNull then ''null'' else ''undefined'')"

definition quoted :: "string \<Rightarrow> string" where
  "quoted s = [CHR 0x27] @ s @ [CHR 0x27]"

text \<open>\<^verbatim>\<open>x.k\<close> throws on \<^verbatim>\<open>null\<close> and \<^verbatim>\<open>undefined\<close> (the message is V8's).\<close>

definition get :: "json \<Rightarrow> string \<Rightarrow> js_error + json" where
  "get x k =
     (if nullish x
      then Inl (type_error (''Cannot read properties of '' @ show_nullish x
                              @ '' (reading '' @ quoted k @ '')''))
      else Inr (lookup_prop x k))"

text \<open>\<^verbatim>\<open>error.response?.data\<close> and \<^verbatim>\<open>error.response?.status\<close>.\<close>

definition response_data :: "js_error \<Rightarrow> json" where
  "response_data e = (case err_response e of None \<Rightarrow> JUndefined | Some r \<Rightarrow> resp_data r)"

definition response_status :: "js_error \<Rightarrow> json" where
  "response_status e =
     (case err_response e of None \<Rightarrow> JUndefined | Some r \<Rightarrow> JNum (of_nat (resp_status r)))"

text \<open>\<^verbatim>\<open>error.response?.data || error.message\<close>.\<close>

definition error_details :: "js_error \<Rightarrow> json" where
  "error_details e = or_else (response_data e) (JStr (err_message e))"

text \<open>\<^verbatim>\<open>String(error)\<close>, that is \<^verbatim>\<open>Error.prototype.toString\<close>.\<close>

definition error_to_string :: "js_error \<Rightarrow> string" where
  "error_to_string e =
     (if err_message e = [] then err_name e
      else if err_name e = [] then err_message e
      else err_name e @ '': '' @ err_message e)"

section \<open>The CRM and the calls made to it\<close>

text \<open>
  A URL is kept as the parts of its template literal: \<^verbatim>\<open>`/a/${x}/b`\<close> is
  \<open>[Lit ''/a/'', Interp x, Lit ''/b'']\<close>. The calls are those of the source:
  \<^verbatim>\<open>hubspotAxios.get(url, {params})\<close>, \<^verbatim>\<open>hubspotAxios.post(url, data)\<close>,
  \<^verbatim>\<open>hubspotAxios.put(url)\<close> and \<^verbatim>\<open>hubspotClient.crm.contacts.searchApi.doSearch(request)\<close>.
\<close>

datatype url_part = Lit string | Interp json

datatype upstream_call =
    AxiosGet "url_part list" "(string \<times> json) list"
  | AxiosPost "url_part list" json
  | AxiosPut "url_part list"
  | DoSearch json

text \<open>
  The CRM is the environment: given the calls this request has already made, in order,
  and the call being made, it resolves with a value (\<^verbatim>\<open>response.data\<close> for axios, the
  response object for the search client) or rejects with an error.
\<close>

type_synonym crm = "upstream_call list \<Rightarrow> upstream_call \<Rightarrow> js_error + json"

text \<open>
  What a handler does with the request: it sends a status and a JSON body
  (\<^verbatim>\<open>res.status(n).json(v)\<close>, 200 for \<^verbatim>\<open>res.json(v)\<close>), or its promise rejects and it
  sends nothing. A handler's result is that reply and the calls it made, in order.
\<close>

datatype reply = Reply nat json | Unhandled js_error

type_synonym outcome = "reply \<times> upstream_call list"

definition failure :: "nat \<Rightarrow> string \<Rightarrow> json \<Rightarrow> reply" where
  "failure code label details =
     Reply code (JObj [(''error'', JStr label), (''details'', details)])"

fun join :: "string \<Rightarrow> string list \<Rightarrow> string" where
  "join sep [] = []"
| "join sep [x] = x"
| "join sep (x # y # ys) = x @ sep @ join sep (y # ys)"

section \<open>GET /api/contacts\<close>

definition list_contacts_call :: upstream_call where
  "list_contacts_call =
     AxiosGet [Lit ''/crm/v3/objects/contacts'']
       [(''limit'', JNum 50),
        (''properties'',
         JStr (join '','' [''firstname'', ''lastname'', ''email'', ''phone'', ''address'',
                           ''jobtitle'', ''company'']))]"

definition get_contacts_try :: "crm \<Rightarrow> (js_error + reply) \<times> upstream_call list" where
  "get_contacts_try crm =
     (case crm [] list_contacts_call of
        Inl e \<Rightarrow> (Inl e, [list_contacts_call])
      | Inr d \<Rightarrow>
          (case get d ''results'' of
             Inl e \<Rightarrow> (Inl e, [list_contacts_call])
           | Inr rs \<Rightarrow>
               (Inr (Reply 200 (JObj [(''results'', or_else rs (JArr []))])),
                [list_contacts_call])))"

definition get_contacts :: "crm \<Rightarrow> outcome" where
  "get_contacts crm =
     (case get_contacts_try crm of
        (Inr r, cs) \<Rightarrow> (r, cs)
      | (Inl e, cs) \<Rightarrow> (failure 500 ''Failed to fetch contacts'' (error_details e), cs))"

section \<open>POST /api/contacts\<close>

subsection \<open>The pattern \<^verbatim>\<open>/Existing ID:\s*(\d+)/\<close>\<close>

text \<open>
  \<^verbatim>\<open>\d\<close> is an ASCII digit. \<^verbatim>\<open>\s\<close> is one of the white space and line terminator
  characters of ECMAScript: U+0009 to U+000D, U+0020, U+00A0, U+1680, U+2000 to
  U+200A, U+2028, U+2029, U+202F, U+205F, U+3000 and U+FEFF, here in their UTF-8
  encodings.
\<close>

definition is_digit :: "char \<Rightarrow> bool" where
  "is_digit c = (48 \<le> (of_char c :: nat) \<and> (of_char c :: nat) \<le> 57)"

definition js_whitespace :: "string list" where
  "js_whitespace =
     [[CHR 0x09], [CHR 0x0A], [CHR 0x0B], [CHR 0x0C], [CHR 0x0D], [CHR 0x20],
      [CHR 0xC2, CHR 0xA0],
      [CHR 0xE1, CHR 0x9A, CHR 0x80],
      [CHR 0xE2, CHR 0x80, CHR 0x80], [CHR 0xE2, CHR 0x80, CHR 0x81],
      [CHR 0xE2, CHR 0x80, CHR 0x82], [CHR 0xE2, CHR 0x80, CHR 0x83],
      [CHR 0xE2, CHR 0x80, CHR 0x84], [CHR 0xE2, CHR 0x80, CHR 0x85],
      [CHR 0xE2, CHR 0x80, CHR 0x86], [CHR 0xE2, CHR 0x80, CHR 0x87],
      [CHR 0xE2, CHR 0x80, CHR 0x88], [CHR 0xE2, CHR 0x80, CHR 0x89],
      [CHR 0xE2, CHR 0x80, CHR 0x8A],
      [CHR 0xE2, CHR 0x80, CHR 0xA8], [CHR 0xE2, CHR 0x80, CHR 0xA9],
      [CHR 0xE2, CHR 0x80, CHR 0xAF],
      [CHR 0xE2, CHR 0x81, CHR 0x9F],
      [CHR 0xE3, CHR 0x80, CHR 0x80],
      [CHR 0xEF, CHR 0xBB, CHR 0xBF]]"

text \<open>One \<^verbatim>\<open>\s\<close> at the head of the string, if there is one: what is left after it.\<close>

definition strip_space :: "string \<Rightarrow> string option" where
  "strip_space s =
     (case List.find (\<lambda>w. prefix w s) js_whitespace of
        None \<Rightarrow> None
      | Some w \<Rightarrow> Some (drop (length w) s))"

text \<open>\<^verbatim>\<open>\s*\<close> is greedy: it takes every white space character there is.\<close>

function skip_spaces :: "string \<Rightarrow> string" where
  "skip_spaces s = (case strip_space s of None \<Rightarrow> s | Some r \<Rightarrow> skip_spaces r)"
  by pat_completeness auto
termination
proof (relation "measure length")
  fix s r :: string
  assume "strip_space s = Some r"
  then obtain w where f: "List.find (\<lambda>w. prefix w s) js_whitespace = Some w"
    and r: "r = drop (length w) s"
    by (auto simp: strip_space_def split: option.splits)
  from f have "w \<in> set js_whitespace" "prefix w s"
    by (auto simp: find_Some_iff)
  with r have w: "w \<in> set js_whitespace" "prefix w s" "r = drop (length w) s"
    by simp_all
  from w(1) have "w \<noteq> []"
    by (auto simp: js_whitespace_def)
  with w(2) have "length (drop (length w) s) < length s"
    by (auto simp: prefix_def)
  with w(3) show "(r, s) \<in> measure length"
    by simp
qed simp

declare skip_spaces.simps [simp del]

text \<open>
  The pattern tried at the head of the string. After \<^verbatim>\<open>Existing ID:\<close> and all the
  white space, \<^verbatim>\<open>(\d+)\<close> takes all the digits there are and needs one; giving white
  space back cannot help, since no white space character is a digit.
\<close>

definition match_here :: "string \<Rightarrow> string option" where
  "match_here s =
     (if prefix ''Existing ID:'' s
      then (let ds = takeWhile is_digit (skip_spaces (drop (length ''Existing ID:'') s))
            in if ds = [] then None else Some ds)
      else None)"

text \<open>\<^verbatim>\<open>message.match(re)\<close> without the \<^verbatim>\<open>g\<close> flag: the match at the leftmost
  position that has one; the result is group 1, \<^verbatim>\<open>match[1]\<close>.\<close>

fun js_match :: "string \<Rightarrow> string option" where
  "js_match [] = match_here []"
| "js_match (c # cs) =
     (case match_here (c # cs) of Some ds \<Rightarrow> Some ds | None \<Rightarrow> js_match cs)"

subsection \<open>The handler\<close>

definition create_contact_call :: "json \<Rightarrow> upstream_call" where
  "create_contact_call props =
     AxiosPost [Lit ''/crm/v3/objects/contacts''] (JObj [(''properties'', props)])"

definition post_contacts_try :: "crm \<Rightarrow> json \<Rightarrow> (js_error + reply) \<times> upstream_call list" where
  "post_contacts_try crm body =
     (case get body ''properties'' of
        Inl e \<Rightarrow> (Inl e, [])
      | Inr props \<Rightarrow>
          (case crm [] (create_contact_call props) of
             Inl e \<Rightarrow> (Inl e, [create_contact_call props])
           | Inr d \<Rightarrow> (Inr (Reply 200 d), [create_contact_call props])))"

text \<open>
  The \<^verbatim>\<open>catch\<close> block. \<^verbatim>\<open>message.match\<close> is a function only when \<^verbatim>\<open>message\<close> is a
  string; a \<^verbatim>\<open>TypeError\<close> thrown here is caught by nothing.
\<close>

definition post_contacts_catch :: "json \<Rightarrow> js_error \<Rightarrow> reply" where
  "post_contacts_catch body error =
     (let hubspotError = response_data error;
          statusCode = response_status error;
          category = opt_chain hubspotError ''category'';
          message = or_else (opt_chain hubspotError ''message'') (JStr [])
      in if statusCode = JNum 409 \<or> category = JStr ''CONFLICT''
         then (case message of
                 JStr m \<Rightarrow>
                   (let existingId =
                          (case js_match m of
                             None \<Rightarrow> JNull
                           | Some ds \<Rightarrow> if truthy (JStr ds) then JStr ds else JNull)
                    in if truthy existingId
                       then (case get body ''properties'' of
                               Inl e \<Rightarrow> Unhandled e
                             | Inr props \<Rightarrow>
                                 Reply 200 (JObj [(''id'', existingId),
                                                  (''properties'', or_else props (JObj [])),
                                                  (''existing'', JBool True)]))
                       else failure 409 ''Contact already exists''
                              (or_else hubspotError message))
               | _ \<Rightarrow> Unhandled (type_error ''message.match is not a function''))
         else failure 500 ''Failed to create contact''
                (or_else hubspotError (JStr (err_message error))))"

definition post_contacts :: "crm \<Rightarrow> json \<Rightarrow> outcome" where
  "post_contacts crm body =
     (case post_contacts_try crm body of
        (Inr r, cs) \<Rightarrow> (r, cs)
      | (Inl e, cs) \<Rightarrow> (post_contacts_catch body e, cs))"

section \<open>GET /api/contacts/by-email\<close>

text \<open>
  \<^verbatim>\<open>results[0]\<close>: the first element of an array, the property \<^verbatim>\<open>0\<close> of an object,
  the first character of a string (its first byte here: the handler reads only \<^verbatim>\<open>id\<close>
  and \<^verbatim>\<open>properties\<close> of it, which no string has), \<^verbatim>\<open>undefined\<close> otherwise.
\<close>

fun index0 :: "json \<Rightarrow> json" where
  "index0 (JArr xs) = (case xs of [] \<Rightarrow> JUndefined | x # _ \<Rightarrow> x)"
| "index0 (JStr s) = (if s = [] then JUndefined else JStr (take 1 s))"
| "index0 (JObj kvs) = lookup_prop (JObj kvs) ''0''"
| "index0 v = JUndefined"

definition search_call :: "json \<Rightarrow> upstream_call" where
  "search_call email =
     DoSearch (JObj
       [(''filterGroups'',
         JArr [JObj [(''filters'',
                      JArr [JObj [(''propertyName'', JStr ''email''),
                                  (''operator'', JStr ''EQ''),
                                  (''value'', email)]])]]),
        (''properties'', JArr [JStr ''firstname'', JStr ''lastname'', JStr ''email'']),
        (''limit'', JNum 1)])"

definition by_email_try :: "crm \<Rightarrow> json \<Rightarrow> (js_error + reply) \<times> upstream_call list" where
  "by_email_try crm email =
     (case crm [] (search_call email) of
        Inl e \<Rightarrow> (Inl e, [search_call email])
      | Inr response \<Rightarrow>
          (case get response ''results'' of
             Inl e \<Rightarrow> (Inl e, [search_call email])
           | Inr rs \<Rightarrow>
               (let results = or_else rs (JArr [])
                in if lookup_prop results ''length'' = JNum 0
                   then (Inr (Reply 200 (JObj [(''found'', JBool False)])), [search_call email])
                   else (let contact = index0 results
                         in case get contact ''id'' of
                              Inl e \<Rightarrow> (Inl e, [search_call email])
                            | Inr cid \<Rightarrow>
                                (Inr (Reply 200
                                   (JObj [(''found'', JBool True),
                                          (''contact'',
                                           JObj [(''id'', cid),
                                                 (''properties'',
                                                  lookup_prop contact ''properties'')])])),
                                 [search_call email])))))"

text \<open>The argument is \<^verbatim>\<open>req.query\<close>, which Express always makes an object: the list of
  its properties.\<close>

definition get_contact_by_email :: "crm \<Rightarrow> (string \<times> json) list \<Rightarrow> outcome" where
  "get_contact_by_email crm query =
     (let email = lookup_prop (JObj query) ''email''
      in if \<not> truthy email
         then (failure 400 ''Missing email parameter''
                 (JStr ''Please provide ?email=example@domain.com''), [])
         else (case by_email_try crm email of
                 (Inr r, cs) \<Rightarrow> (r, cs)
               | (Inl e, cs) \<Rightarrow>
                   (failure 500 ''Failed to search contact by email''
                      (or_else (JStr (err_message e)) (JStr (error_to_string e))), cs)))"

section \<open>GET /api/deals\<close>

definition deal_properties :: "string list" where
  "deal_properties = [''dealname'', ''amount'', ''dealstage'', ''closedate'', ''pipeline'']"

definition list_deals_call :: upstream_call where
  "list_deals_call =
     AxiosGet [Lit ''/crm/v3/objects/deals'']
       [(''limit'', JNum 50), (''properties'', JStr (join '','' deal_properties))]"

definition get_deals_try :: "crm \<Rightarrow> (js_error + reply) \<times> upstream_call list" where
  "get_deals_try crm =
     (case crm [] list_deals_call of
        Inl e \<Rightarrow> (Inl e, [list_deals_call])
      | Inr d \<Rightarrow>
          (case get d ''results'' of
             Inl e \<Rightarrow> (Inl e, [list_deals_call])
           | Inr rs \<Rightarrow>
               (Inr (Reply 200 (JObj [(''results'', or_else rs (JArr []))])),
                [list_deals_call])))"

definition get_deals :: "crm \<Rightarrow> outcome" where
  "get_deals crm =
     (case get_deals_try crm of
        (Inr r, cs) \<Rightarrow> (r, cs)
      | (Inl e, cs) \<Rightarrow> (failure 500 ''Failed to fetch deals'' (error_details e), cs))"

section \<open>POST /api/deals\<close>

definition create_deal_call :: "json \<Rightarrow> upstream_call" where
  "create_deal_call dealProperties =
     AxiosPost [Lit ''/crm/v3/objects/deals''] (JObj [(''properties'', dealProperties)])"

definition associate_call :: "json \<Rightarrow> json \<Rightarrow> upstream_call" where
  "associate_call dealId contactId =
     AxiosPut [Lit ''/crm/v3/objects/deals/'', Interp dealId,
               Lit ''/associations/contacts/'', Interp contactId, Lit ''/3'']"

definition post_deals_try ::
  "crm \<Rightarrow> json \<Rightarrow> json \<Rightarrow> (js_error + reply) \<times> upstream_call list" where
  "post_deals_try crm dealProperties contactId =
     (case crm [] (create_deal_call dealProperties) of
        Inl e \<Rightarrow> (Inl e, [create_deal_call dealProperties])
      | Inr deal \<Rightarrow>
          (case get deal ''id'' of
             Inl e \<Rightarrow> (Inl e, [create_deal_call dealProperties])
           | Inr dealId \<Rightarrow>
               (case crm [create_deal_call dealProperties] (associate_call dealId contactId) of
                  Inl e \<Rightarrow>
                    (Inl e, [create_deal_call dealProperties, associate_call dealId contactId])
                | Inr r \<Rightarrow>
                    (Inr (Reply 200 deal),
                     [create_deal_call dealProperties, associate_call dealId contactId]))))"

text \<open>
  \<^verbatim>\<open>const { dealProperties, contactId } = req.body\<close> stands before the \<^verbatim>\<open>try\<close>: on a body
  that is \<^verbatim>\<open>null\<close> or \<^verbatim>\<open>undefined\<close> it throws (the message is V8's) and nothing
  catches it.
\<close>

definition post_deals :: "crm \<Rightarrow> json \<Rightarrow> outcome" where
  "post_deals crm body =
     (if nullish body
      then (Unhandled (type_error (''Cannot destructure property '' @ quoted ''dealProperties''
                                     @ '' of '' @ quoted ''req.body'' @ '' as it is ''
                                     @ show_nullish body @ ''.'')), [])
      else (let dealProperties = lookup_prop body ''dealProperties'';
                contactId = lookup_prop body ''contactId''
            in if \<not> truthy dealProperties \<or> \<not> truthy contactId
               then (failure 400 ''Missing dealProperties or contactId''
                       (JStr (''Request body must include { dealProperties: {...}, contactId: ''
                              @ [CHR 0x22] @ ''123'' @ [CHR 0x22] @ '' }'')), [])
               else (case post_deals_try crm dealProperties contactId of
                       (Inr r, cs) \<Rightarrow> (r, cs)
                     | (Inl e, cs) \<Rightarrow>
                         (failure 500 ''Failed to create deal'' (error_details e), cs))))"

section \<open>GET /api/contacts/:contactId/deals\<close>

text \<open>\<^verbatim>\<open>xs.map(f)\<close> where \<^verbatim>\<open>f\<close> may throw: the first element that throws ends it.\<close>

fun map_throwing :: "(json \<Rightarrow> js_error + json) \<Rightarrow> json list \<Rightarrow> js_error + json list" where
  "map_throwing f [] = Inr []"
| "map_throwing f (x # xs) =
     (case f x of
        Inl e \<Rightarrow> Inl e
      | Inr y \<Rightarrow> (case map_throwing f xs of Inl e \<Rightarrow> Inl e | Inr ys \<Rightarrow> Inr (y # ys)))"

text \<open>
  \<^verbatim>\<open>associations.map((assoc) => assoc.toObjectId)\<close>: only an array has \<^verbatim>\<open>map\<close>; on any
  other value the call throws.
\<close>

definition to_object_ids :: "json \<Rightarrow> js_error + json list" where
  "to_object_ids associations =
     (case associations of
        JArr xs \<Rightarrow> map_throwing (\<lambda>assoc. get assoc ''toObjectId'') xs
      | _ \<Rightarrow> Inl (type_error ''associations.map is not a function''))"

definition list_associations_call :: "string \<Rightarrow> upstream_call" where
  "list_associations_call contactId =
     AxiosGet [Lit ''/crm/v4/objects/contacts/'', Interp (JStr contactId),
               Lit ''/associations/deals'']
       [(''limit'', JNum 100)]"

definition batch_read_call :: "json list \<Rightarrow> upstream_call" where
  "batch_read_call dealIds =
     AxiosPost [Lit ''/crm/v3/objects/deals/batch/read'']
       (JObj [(''properties'', JArr (map JStr deal_properties)),
              (''inputs'', JArr (map (\<lambda>i. JObj [(''id'', i)]) dealIds))])"

definition contact_deals_try :: "crm \<Rightarrow> string \<Rightarrow> (js_error + reply) \<times> upstream_call list" where
  "contact_deals_try crm contactId =
     (case crm [] (list_associations_call contactId) of
        Inl e \<Rightarrow> (Inl e, [list_associations_call contactId])
      | Inr d \<Rightarrow>
          (case get d ''results'' of
             Inl e \<Rightarrow> (Inl e, [list_associations_call contactId])
           | Inr rs \<Rightarrow>
               (case to_object_ids (or_else rs (JArr [])) of
                  Inl e \<Rightarrow> (Inl e, [list_associations_call contactId])
                | Inr ids \<Rightarrow>
                    (let dealIds = filter truthy ids
                     in if length dealIds = 0
                        then (Inr (Reply 200 (JObj [(''results'', JArr [])])),
                              [list_associations_call contactId])
                        else (case crm [list_associations_call contactId]
                                       (batch_read_call dealIds) of
                                Inl e \<Rightarrow>
                                  (Inl e, [list_associations_call contactId,
                                           batch_read_call dealIds])
                              | Inr b \<Rightarrow>
                                  (case get b ''results'' of
                                     Inl e \<Rightarrow>
                                       (Inl e, [list_associations_call contactId,
                                                batch_read_call dealIds])
                                   | Inr deals \<Rightarrow>
                                       (Inr (Reply 200
                                          (JObj [(''results'', or_else deals (JArr []))])),
                                        [list_associations_call contactId,
                                         batch_read_call dealIds])))))))"

text \<open>The argument is \<^verbatim>\<open>req.params.contactId\<close>, a string.\<close>

definition get_contact_deals :: "crm \<Rightarrow> string \<Rightarrow> outcome" where
  "get_contact_deals crm contactId =
     (case contact_deals_try crm contactId of
        (Inr r, cs) \<Rightarrow> (r, cs)
      | (Inl e, cs) \<Rightarrow>
          (failure 500 ''Failed to fetch deals for contact'' (error_details e), cs))"

section \<open>Shapes of values\<close>

text \<open>A JSON object, as opposed to an array, a primitive value, \<^verbatim>\<open>null\<close> or
  \<^verbatim>\<open>undefined\<close>.\<close>

fun is_object :: "json \<Rightarrow> bool" where
  "is_object (JObj kvs) = True"
| "is_object v = False"

text \<open>The strings in a value: what a reader of a reply can find written in it.\<close>

fun json_strings :: "json \<Rightarrow> string list" where
  "json_strings (JStr s) = [s]"
| "json_strings (JArr xs) = concat (map json_strings xs)"
| "json_strings (JObj kvs) = concat (map (\<lambda>kv. json_strings (snd kv)) kvs)"
| "json_strings v = []"

section \<open>CRMs to run the handlers against\<close>

text \<open>A CRM that gives its answers in order, one to each call of the request, and is
  unreachable once they are used up.\<close>

definition network_error :: js_error where
  "network_error = \<lparr>err_name = ''AxiosError'', err_message = ''Network Error'',
                     err_response = None\<rparr>"

definition http_error :: "nat \<Rightarrow> string \<Rightarrow> json \<Rightarrow> js_error" where
  "http_error code msg d =
     \<lparr>err_name = ''AxiosError'', err_message = msg,
      err_response = Some \<lparr>resp_status = code, resp_data = d\<rparr>\<rparr>"

definition scripted_crm :: "(js_error + json) list \<Rightarrow> crm" where
  "scripted_crm answers history call =
     (if length history < length answers then answers ! length history
      else Inl network_error)"

text \<open>The CRM's answer to the creation of a contact whose email it already has.\<close>

definition duplicate_contact_error :: "string \<Rightarrow> js_error" where
  "duplicate_contact_error msg =
     http_error 409 ''Request failed with status code 409''
       (JObj [(''status'', JStr ''error''), (''message'', JStr msg),
              (''category'', JStr ''CONFLICT'')])"

section \<open>What the pattern means\<close>

text \<open>
  The pattern in the words of its reading, to compare \<open>js_match\<close> with: a run of white
  space is a sequence of white space characters; the pattern stands at the head of a
  string that starts with \<^verbatim>\<open>Existing ID:\<close>, then a run of white space, then one or more
  digits; group 1 is those digits, up to the first character that is not a digit; the
  match is the leftmost one.
\<close>

definition white_space :: "string \<Rightarrow> bool" where
  "white_space ws = (\<exists>parts. set parts \<subseteq> set js_whitespace \<and> ws = concat parts)"

definition existing_id_at :: "string \<Rightarrow> string \<Rightarrow> bool" where
  "existing_id_at s ds =
     (\<exists>ws rest. s = ''Existing ID:'' @ ws @ ds @ rest \<and> white_space ws
        \<and> ds \<noteq> [] \<and> (\<forall>c\<in>set ds. is_digit c) \<and> takeWhile is_digit rest = [])"

definition mentions_existing_id :: "string \<Rightarrow> bool" where
  "mentions_existing_id msg = (\<exists>pre s ds. msg = pre @ s \<and> existing_id_at s ds)"

definition parsed_existing_id :: "string \<Rightarrow> string \<Rightarrow> bool" where
  "parsed_existing_id msg ds =
     (\<exists>pre s. msg = pre @ s \<and> existing_id_at s ds
        \<and> (\<forall>pre' s'. msg = pre' @ s' \<and> length pre' < length pre \<longrightarrow>
               \<not> (\<exists>ds'. existing_id_at s' ds')))"

section \<open>Facts about the operations\<close>

lemma map_throwing_get:
  "\<forall>a\<in>set xs. \<not> nullish a \<Longrightarrow>
   map_throwing (\<lambda>a. get a k) xs = Inr (map (\<lambda>a. lookup_prop a k) xs)"
  by (induction xs) (simp_all add: get_def)

lemma to_object_ids_array:
  "\<forall>a\<in>set xs. \<not> nullish a \<Longrightarrow>
   to_object_ids (JArr xs) = Inr (map (\<lambda>a. lookup_prop a ''toObjectId'') xs)"
  by (simp add: to_object_ids_def map_throwing_get)

subsection \<open>The pattern finds what its reading says\<close>

lemma strip_space_Some_D:
  assumes "strip_space s = Some r"
  shows "\<exists>w\<in>set js_whitespace. s = w @ r"
proof -
  from assms obtain w where f: "List.find (\<lambda>w. prefix w s) js_whitespace = Some w"
    and r: "r = drop (length w) s"
    by (auto simp: strip_space_def split: option.splits)
  from f have "w \<in> set js_whitespace" "prefix w s"
    by (auto simp: find_Some_iff)
  with r show ?thesis
    by (auto simp: prefix_def)
qed

lemma strip_space_Nil: "strip_space [] = None"
  by (simp add: strip_space_def js_whitespace_def)

lemma strip_space_whitespace:
  "w \<in> set js_whitespace \<Longrightarrow> strip_space (w @ r) = Some r"
  unfolding js_whitespace_def strip_space_def
  apply (simp only: list.set insert_iff empty_iff)
  apply (elim disjE FalseE)
  apply simp_all
  done

lemma digit_not_space_head:
  assumes "is_digit c"
  shows "c \<notin> {CHR 0x09, CHR 0x0A, CHR 0x0B, CHR 0x0C, CHR 0x0D, CHR 0x20, CHR 0xC2,
              CHR 0xE1, CHR 0xE2, CHR 0xE3, CHR 0xEF}"
  using assms by (auto simp: is_digit_def)

lemma space_head:
  assumes "w \<in> set js_whitespace"
  shows "\<exists>b bs. w = b # bs \<and> b \<in> {CHR 0x09, CHR 0x0A, CHR 0x0B, CHR 0x0C, CHR 0x0D, CHR 0x20,
              CHR 0xC2, CHR 0xE1, CHR 0xE2, CHR 0xE3, CHR 0xEF}"
  using assms unfolding js_whitespace_def
  apply (simp only: list.set insert_iff empty_iff)
  apply (elim disjE FalseE)
  apply simp_all
  done

lemma strip_space_digit:
  assumes "is_digit c"
  shows "strip_space (c # r) = None"
proof -
  have "\<not> prefix w (c # r)" if "w \<in> set js_whitespace" for w
    using space_head [OF that] digit_not_space_head [OF assms] by auto
  then have "List.find (\<lambda>w. prefix w (c # r)) js_whitespace = None"
    by (simp add: find_None_iff)
  then show ?thesis
    by (simp add: strip_space_def)
qed

lemma white_space_Nil: "white_space []"
  unfolding white_space_def by (rule exI [of _ "[]"]) simp

lemma white_space_Cons:
  assumes "w \<in> set js_whitespace" and "white_space r"
  shows "white_space (w @ r)"
proof -
  from assms(2) obtain parts where "set parts \<subseteq> set js_whitespace" "r = concat parts"
    by (auto simp: white_space_def)
  with assms(1) have "set (w # parts) \<subseteq> set js_whitespace \<and> w @ r = concat (w # parts)"
    by simp
  then show ?thesis
    unfolding white_space_def by blast
qed

lemma skip_spaces_decomp:
  "\<exists>ws. white_space ws \<and> s = ws @ skip_spaces s \<and> strip_space (skip_spaces s) = None"
proof (induction s rule: skip_spaces.induct)
  case (1 s)
  show ?case
  proof (cases "strip_space s")
    case None
    then have "skip_spaces s = s"
      by (simp add: skip_spaces.simps)
    with None white_space_Nil show ?thesis
      by auto
  next
    case (Some r)
    then obtain w where w: "w \<in> set js_whitespace" "s = w @ r"
      using strip_space_Some_D by blast
    from Some have eq: "skip_spaces s = skip_spaces r"
      by (simp add: skip_spaces.simps)
    from "1.IH" [OF Some] obtain ws where
      ws: "white_space ws" "r = ws @ skip_spaces r" "strip_space (skip_spaces r) = None"
      by blast
    have "white_space (w @ ws)"
      using w(1) ws(1) by (rule white_space_Cons)
    moreover have "s = (w @ ws) @ skip_spaces s"
      using w(2) ws(2) eq by simp
    ultimately show ?thesis
      using ws(3) eq by metis
  qed
qed

lemma skip_spaces_run:
  assumes "white_space ws" and "strip_space r = None"
  shows "skip_spaces (ws @ r) = r"
proof -
  from assms(1) obtain parts where "set parts \<subseteq> set js_whitespace" "ws = concat parts"
    by (auto simp: white_space_def)
  then show ?thesis
  proof (induction parts arbitrary: ws)
    case Nil
    with assms(2) show ?case
      by (simp add: skip_spaces.simps)
  next
    case (Cons w parts)
    then have "strip_space (ws @ r) = Some (concat parts @ r)"
      using strip_space_whitespace [of w "concat parts @ r"] by simp
    then have "skip_spaces (ws @ r) = skip_spaces (concat parts @ r)"
      by (simp add: skip_spaces.simps)
    with Cons show ?case
      by simp
  qed
qed

lemma strip_space_no_digit_head:
  assumes "ds \<noteq> []" and "\<forall>c\<in>set ds. is_digit c"
  shows "strip_space (ds @ rest) = None"
  using assms by (cases ds) (simp_all add: strip_space_digit)

lemma takeWhile_after_dropWhile: "takeWhile P (dropWhile P xs) = []"
  by (induction xs) auto

lemma match_here_iff: "match_here s = Some ds \<longleftrightarrow> existing_id_at s ds"
proof
  assume m: "match_here s = Some ds"
  then have p: "prefix ''Existing ID:'' s"
    by (simp add: match_here_def split: if_splits)
  then obtain t where t: "s = ''Existing ID:'' @ t"
    by (auto simp: prefix_def)
  from m p t have ds: "ds = takeWhile is_digit (skip_spaces t)" "ds \<noteq> []"
    by (auto simp: match_here_def Let_def split: if_splits)
  obtain ws where ws: "white_space ws" "t = ws @ skip_spaces t"
    using skip_spaces_decomp [of t] by blast
  let ?rest = "dropWhile is_digit (skip_spaces t)"
  have "skip_spaces t = ds @ ?rest"
    using ds(1) by simp
  with t ws(2) have "s = ''Existing ID:'' @ ws @ ds @ ?rest"
    by metis
  moreover have "\<forall>c\<in>set ds. is_digit c"
    using ds(1) by (auto dest: set_takeWhileD)
  moreover have "takeWhile is_digit ?rest = []"
    by (rule takeWhile_after_dropWhile)
  ultimately show "existing_id_at s ds"
    unfolding existing_id_at_def using ws(1) ds(2) by blast
next
  assume "existing_id_at s ds"
  then obtain ws rest where s: "s = ''Existing ID:'' @ ws @ ds @ rest"
    and ws: "white_space ws" and ne: "ds \<noteq> []" and dig: "\<forall>c\<in>set ds. is_digit c"
    and stop: "takeWhile is_digit rest = []"
    unfolding existing_id_at_def by blast
  have "skip_spaces (ws @ ds @ rest) = ds @ rest"
    using ws strip_space_no_digit_head [OF ne dig] by (rule skip_spaces_run)
  moreover have "takeWhile is_digit (ds @ rest) = ds"
    using dig stop by simp
  ultimately show "match_here s = Some ds"
    using s ne by (simp add: match_here_def)
qed

lemma js_match_iff:
  "js_match msg = Some ds \<longleftrightarrow>
     (\<exists>pre s. msg = pre @ s \<and> match_here s = Some ds
        \<and> (\<forall>pre' s'. msg = pre' @ s' \<and> length pre' < length pre \<longrightarrow> match_here s' = None))"
proof (induction msg)
  case Nil
  show ?case by simp
next
  case (Cons c cs)
  show ?case
  proof (cases "match_here (c # cs)")
    case (Some ds')
    have "(\<exists>pre s. c # cs = pre @ s \<and> match_here s = Some ds
        \<and> (\<forall>pre' s'. c # cs = pre' @ s' \<and> length pre' < length pre \<longrightarrow> match_here s' = None))
      \<longleftrightarrow> ds = ds'"
    proof
      assume "\<exists>pre s. c # cs = pre @ s \<and> match_here s = Some ds
        \<and> (\<forall>pre' s'. c # cs = pre' @ s' \<and> length pre' < length pre \<longrightarrow> match_here s' = None)"
      then obtain pre s where a: "c # cs = pre @ s" "match_here s = Some ds"
        "\<forall>pre' s'. c # cs = pre' @ s' \<and> length pre' < length pre \<longrightarrow> match_here s' = None"
        by blast
      have "pre = []"
      proof (rule ccontr)
        assume "pre \<noteq> []"
        then have "c # cs = [] @ (c # cs) \<and> length ([]::string) < length pre"
          by simp
        with a(3) have "match_here (c # cs) = None"
          by blast
        with Some show False by simp
      qed
      with a(1,2) Some show "ds = ds'"
        by simp
    next
      assume "ds = ds'"
      with Some have "c # cs = [] @ (c # cs) \<and> match_here (c # cs) = Some ds
        \<and> (\<forall>pre' s'. c # cs = pre' @ s' \<and> length pre' < length ([]::string)
               \<longrightarrow> match_here s' = None)"
        by simp
      then show "\<exists>pre s. c # cs = pre @ s \<and> match_here s = Some ds
        \<and> (\<forall>pre' s'. c # cs = pre' @ s' \<and> length pre' < length pre \<longrightarrow> match_here s' = None)"
        by blast
    qed
    with Some show ?thesis
      by auto
  next
    case None
    have "(\<exists>pre s. c # cs = pre @ s \<and> match_here s = Some ds
        \<and> (\<forall>pre' s'. c # cs = pre' @ s' \<and> length pre' < length pre \<longrightarrow> match_here s' = None))
      \<longleftrightarrow> (\<exists>pre s. cs = pre @ s \<and> match_here s = Some ds
        \<and> (\<forall>pre' s'. cs = pre' @ s' \<and> length pre' < length pre \<longrightarrow> match_here s' = None))"
      (is "?L \<longleftrightarrow> ?R")
    proof
      assume ?L
      then obtain pre s where a: "c # cs = pre @ s" "match_here s = Some ds"
        "\<forall>pre' s'. c # cs = pre' @ s' \<and> length pre' < length pre \<longrightarrow> match_here s' = None"
        by blast
      from a(1,2) None obtain p where p: "pre = c # p" "cs = p @ s"
        by (cases pre) auto
      have "match_here s' = None" if "cs = pre' @ s'" "length pre' < length p" for pre' s'
      proof -
        from that p(1) have "c # cs = (c # pre') @ s' \<and> length (c # pre') < length pre"
          by simp
        with a(3) show ?thesis by blast
      qed
      with p(2) a(2) show ?R
        by blast
    next
      assume ?R
      then obtain p s where a: "cs = p @ s" "match_here s = Some ds"
        "\<forall>pre' s'. cs = pre' @ s' \<and> length pre' < length p \<longrightarrow> match_here s' = None"
        by blast
      have "match_here s' = None" if "c # cs = pre' @ s'" "length pre' < length (c # p)"
        for pre' s'
      proof (cases pre')
        case Nil
        with that(1) None show ?thesis by simp
      next
        case (Cons x q)
        with that have "cs = q @ s' \<and> length q < length p"
          by simp
        with a(3) show ?thesis by blast
      qed
      moreover have "c # cs = (c # p) @ s"
        using a(1) by simp
      ultimately show ?L
        using a(2) by blast
    qed
    with None Cons.IH show ?thesis
      by simp
  qed
qed

lemma js_match_parsed: "js_match msg = Some ds \<longleftrightarrow> parsed_existing_id msg ds"
proof -
  have none: "match_here s = None \<longleftrightarrow> \<not> (\<exists>ds'. existing_id_at s ds')" for s
    using match_here_iff [of s] by (cases "match_here s") auto
  show ?thesis
    unfolding js_match_iff parsed_existing_id_def none match_here_iff ..
qed

lemma js_match_mentions: "js_match msg \<noteq> None \<longleftrightarrow> mentions_existing_id msg"
proof
  assume "js_match msg \<noteq> None"
  then obtain ds where "js_match msg = Some ds"
    by auto
  then show "mentions_existing_id msg"
    unfolding js_match_parsed parsed_existing_id_def mentions_existing_id_def by blast
next
  assume "mentions_existing_id msg"
  then obtain pre s ds where "msg = pre @ s" "match_here s = Some ds"
    unfolding mentions_existing_id_def match_here_iff by blast
  then show "js_match msg \<noteq> None"
  proof (induction pre arbitrary: msg)
    case Nil
    then show ?case by (cases msg) auto
  next
    case (Cons c pre)
    then show ?case by (auto split: option.splits)
  qed
qed

lemma js_match_digits:
  assumes "js_match msg = Some ds"
  shows "ds \<noteq> []"
  using assms unfolding js_match_parsed parsed_existing_id_def existing_id_at_def by blast

subsection \<open>The conflict branch of contact creation\<close>

lemma conflict_with_id:
  assumes "\<not> nullish body"
    and "crm [] (create_contact_call (lookup_prop body ''properties'')) = Inl e"
    and "err_response e = Some r"
    and "resp_status r = 409 \<or> opt_chain (resp_data r) ''category'' = JStr ''CONFLICT''"
    and "or_else (opt_chain (resp_data r) ''message'') (JStr []) = JStr msg"
    and "js_match msg = Some ds"
  shows "post_contacts crm body =
           (Reply 200
              (JObj [(''id'', JStr ds),
                     (''properties'', or_else (lookup_prop body ''properties'') (JObj [])),
                     (''existing'', JBool True)]),
            [create_contact_call (lookup_prop body ''properties'')])"
proof -
  have tried: "post_contacts_try crm body =
      (Inl e, [create_contact_call (lookup_prop body ''properties'')])"
    using assms(1,2) by (simp add: post_contacts_try_def get_def)
  have conflict: "response_status e = JNum 409
      \<or> opt_chain (response_data e) ''category'' = JStr ''CONFLICT''"
    using assms(3,4) by (auto simp: response_status_def response_data_def)
  have message: "or_else (opt_chain (response_data e) ''message'') (JStr []) = JStr msg"
    using assms(3,5) by (simp add: response_data_def)
  have "post_contacts_catch body e =
      Reply 200 (JObj [(''id'', JStr ds),
                       (''properties'', or_else (lookup_prop body ''properties'') (JObj [])),
                       (''existing'', JBool True)])"
    using conflict message assms(1,6) js_match_digits [OF assms(6)]
    by (auto simp: post_contacts_catch_def Let_def get_def)
  with tried show ?thesis
    by (simp add: post_contacts_def)
qed

lemma conflict_without_id:
  assumes "\<not> nullish body"
    and "crm [] (create_contact_call (lookup_prop body ''properties'')) = Inl e"
    and "err_response e = Some r"
    and "resp_status r = 409 \<or> opt_chain (resp_data r) ''category'' = JStr ''CONFLICT''"
    and "or_else (opt_chain (resp_data r) ''message'') (JStr []) = JStr msg"
    and "js_match msg = None"
  shows "post_contacts crm body =
           (Reply 409 (JObj [(''error'', JStr ''Contact already exists''),
                             (''details'', or_else (resp_data r) (JStr msg))]),
            [create_contact_call (lookup_prop body ''properties'')])"
proof -
  have tried: "post_contacts_try crm body =
      (Inl e, [create_contact_call (lookup_prop body ''properties'')])"
    using assms(1,2) by (simp add: post_contacts_try_def get_def)
  have conflict: "response_status e = JNum 409
      \<or> opt_chain (response_data e) ''category'' = JStr ''CONFLICT''"
    using assms(3,4) by (auto simp: response_status_def response_data_def)
  have message: "or_else (opt_chain (response_data e) ''message'') (JStr []) = JStr msg"
    using assms(3,5) by (simp add: response_data_def)
  have "post_contacts_catch body e =
      Reply 409 (JObj [(''error'', JStr ''Contact already exists''),
                       (''details'', or_else (resp_data r) (JStr msg))])"
    using conflict message assms(3,6)
    by (auto simp: post_contacts_catch_def Let_def failure_def response_data_def)
  with tried show ?thesis
    by (simp add: post_contacts_def)
qed

subsection \<open>The scripted CRM answering a duplicate contact\<close>

lemma duplicate_contact_answer:
  "scripted_crm [Inl (duplicate_contact_error msg)] [] call = Inl (duplicate_contact_error msg)"
  "err_response (duplicate_contact_error msg) =
     Some \<lparr>resp_status = 409,
           resp_data = JObj [(''status'', JStr ''error''), (''message'', JStr msg),
                             (''category'', JStr ''CONFLICT'')]\<rparr>"
  by (simp_all add: scripted_crm_def duplicate_contact_error_def http_error_def)

lemma duplicate_contact_message:
  "msg \<noteq> [] \<Longrightarrow>
   or_else (opt_chain (JObj [(''status'', JStr ''error''), (''message'', JStr msg),
                             (''category'', JStr ''CONFLICT'')]) ''message'') (JStr [])
     = JStr msg"
  by (simp add: opt_chain_def or_else_def)

section \<open>Listing contacts\<close>

text \<open>
  Claim C7. Listing contacts makes one upstream call, and no other whatever the CRM
  answers (so there is no retry): a GET of the contact objects with \<open>limit\<close> 50 and
  \<open>properties\<close> \<^verbatim>\<open>firstname,lastname,email,phone,address,jobtitle,company\<close>. When the
  CRM answers with a JSON body, the reply is 200 with \<open>results\<close> the body's \<open>results\<close>,
  or \<open>[]\<close> when the body has none. When the call fails, the reply is 500 with
  \<open>details\<close> the error's response body, or its message when there is none.
\<close>

theorem list_contacts_contract:
  "snd (get_contacts crm) = [list_contacts_call]
   \<and> list_contacts_call =
       AxiosGet [Lit ''/crm/v3/objects/contacts'']
         [(''limit'', JNum 50),
          (''properties'', JStr ''firstname,lastname,email,phone,address,jobtitle,company'')]
   \<and> (\<forall>d. crm [] list_contacts_call = Inr d \<and> \<not> nullish d \<longrightarrow>
          fst (get_contacts crm) =
            Reply 200 (JObj [(''results'', or_else (lookup_prop d ''results'') (JArr []))]))
   \<and> (\<forall>e. crm [] list_contacts_call = Inl e \<longrightarrow>
          fst (get_contacts crm) =
            Reply 500 (JObj [(''error'', JStr ''Failed to fetch contacts''),
                             (''details'', or_else (response_data e) (JStr (err_message e)))]))"
  by (auto simp: get_contacts_def get_contacts_try_def get_def failure_def error_details_def
                 list_contacts_call_def split: sum.splits)

theorem list_contacts_contract_witness:
  "get_contacts (scripted_crm [Inr (JObj [(''results'', JArr [JObj [(''id'', JStr ''51'')]])])])
     = (Reply 200 (JObj [(''results'', JArr [JObj [(''id'', JStr ''51'')]])]),
        [list_contacts_call])
   \<and> get_contacts (scripted_crm [Inr (JObj [])])
     = (Reply 200 (JObj [(''results'', JArr [])]), [list_contacts_call])
   \<and> get_contacts
       (scripted_crm [Inl (http_error 401 ''Request failed with status code 401''
                             (JObj [(''category'', JStr ''INVALID_AUTHENTICATION'')]))])
     = (Reply 500 (JObj [(''error'', JStr ''Failed to fetch contacts''),
                         (''details'', JObj [(''category'', JStr ''INVALID_AUTHENTICATION'')])]),
        [list_contacts_call])
   \<and> get_contacts (scripted_crm [])
     = (Reply 500 (JObj [(''error'', JStr ''Failed to fetch contacts''),
                         (''details'', JStr ''Network Error'')]),
        [list_contacts_call])"
  using list_contacts_contract
          [of "scripted_crm [Inr (JObj [(''results'', JArr [JObj [(''id'', JStr ''51'')]])])]"]
        list_contacts_contract [of "scripted_crm [Inr (JObj [])]"]
        list_contacts_contract
          [of "scripted_crm [Inl (http_error 401 ''Request failed with status code 401''
                                    (JObj [(''category'', JStr ''INVALID_AUTHENTICATION'')]))]"]
        list_contacts_contract [of "scripted_crm []"]
  by (simp add: prod_eq_iff scripted_crm_def or_else_def http_error_def network_error_def
                response_data_def)

section \<open>Creating a contact\<close>

text \<open>
  Claim C1. The create call is made (the body is a JSON value other than \<^verbatim>\<open>null\<close>) and
  the CRM rejects it with a response whose status is 409 or whose body has category
  \<^verbatim>\<open>CONFLICT\<close>; \<open>msg\<close> is the message of that body, the empty string when it has none.
  If \<open>msg\<close> contains \<^verbatim>\<open>Existing ID:\<close>, white space or none, and digits, the reply is
  200 with \<open>id\<close> the digits parsed (those of the leftmost occurrence, all of them),
  \<open>properties\<close> the request's properties (\<^verbatim>\<open>req.body.properties || {}\<close>: the empty
  object stands for properties the request does not have) and \<open>existing\<close> true. If
  \<open>msg\<close> contains no such text, the reply is 409 with \<open>details\<close> the error's response
  body (\<^verbatim>\<open>hubspotError || message\<close>: \<open>msg\<close>, then empty, stands for a body that is
  falsy). In both cases the create call is the only call.
\<close>

theorem contact_conflict_response:
  assumes "\<not> nullish body"
    and "crm [] (create_contact_call (lookup_prop body ''properties'')) = Inl e"
    and "err_response e = Some r"
    and "resp_status r = 409 \<or> opt_chain (resp_data r) ''category'' = JStr ''CONFLICT''"
    and "or_else (opt_chain (resp_data r) ''message'') (JStr []) = JStr msg"
  shows "(mentions_existing_id msg \<longrightarrow>
            (\<exists>ds. parsed_existing_id msg ds
               \<and> post_contacts crm body =
                   (Reply 200
                      (JObj [(''id'', JStr ds),
                             (''properties'',
                              or_else (lookup_prop body ''properties'') (JObj [])),
                             (''existing'', JBool True)]),
                    [create_contact_call (lookup_prop body ''properties'')])))
       \<and> (\<not> mentions_existing_id msg \<longrightarrow>
            post_contacts crm body =
              (Reply 409 (JObj [(''error'', JStr ''Contact already exists''),
                                (''details'', or_else (resp_data r) (JStr msg))]),
               [create_contact_call (lookup_prop body ''properties'')]))"
proof (intro conjI impI)
  assume "mentions_existing_id msg"
  then obtain ds where ds: "js_match msg = Some ds"
    using js_match_mentions [of msg] by auto
  then have "parsed_existing_id msg ds"
    by (simp add: js_match_parsed)
  with conflict_with_id [where crm = crm, OF assms ds]
  show "\<exists>ds. parsed_existing_id msg ds
          \<and> post_contacts crm body =
              (Reply 200
                 (JObj [(''id'', JStr ds),
                        (''properties'', or_else (lookup_prop body ''properties'') (JObj [])),
                        (''existing'', JBool True)]),
               [create_contact_call (lookup_prop body ''properties'')])"
    by blast
next
  assume "\<not> mentions_existing_id msg"
  then have "js_match msg = None"
    using js_match_mentions [of msg] by simp
  then show "post_contacts crm body =
      (Reply 409 (JObj [(''error'', JStr ''Contact already exists''),
                        (''details'', or_else (resp_data r) (JStr msg))]),
       [create_contact_call (lookup_prop body ''properties'')])"
    by (rule conflict_without_id [where crm = crm, OF assms])
qed

theorem contact_conflict_response_witness:
  "post_contacts
     (scripted_crm
        [Inl (duplicate_contact_error ''Contact already exists. Existing ID: 179556362935'')])
     (JObj [(''properties'', JObj [(''email'', JStr ''ada@example.com'')])])
   = (Reply 200 (JObj [(''id'', JStr ''179556362935''),
                       (''properties'', JObj [(''email'', JStr ''ada@example.com'')]),
                       (''existing'', JBool True)]),
      [create_contact_call (JObj [(''email'', JStr ''ada@example.com'')])])
   \<and> post_contacts
       (scripted_crm [Inl (duplicate_contact_error ''Contact already exists.'')])
       (JObj [(''properties'', JObj [(''email'', JStr ''ada@example.com'')])])
   = (Reply 409 (JObj [(''error'', JStr ''Contact already exists''),
                       (''details'',
                        JObj [(''status'', JStr ''error''),
                              (''message'', JStr ''Contact already exists.''),
                              (''category'', JStr ''CONFLICT'')])]),
      [create_contact_call (JObj [(''email'', JStr ''ada@example.com'')])])"
proof -
  define props where "props = JObj [(''email'', JStr ''ada@example.com'')]"
  define body where "body = JObj [(''properties'', props)]"
  define with_id where "with_id = ''Contact already exists. Existing ID: 179556362935''"
  define without_id where "without_id = ''Contact already exists.''"
  have parsed: "js_match with_id = Some ''179556362935''"
    unfolding with_id_def by code_simp
  have none: "js_match without_id = None"
    unfolding without_id_def by code_simp
  have mentioned: "mentions_existing_id with_id"
    using parsed js_match_mentions [of with_id] by simp
  have unmentioned: "\<not> mentions_existing_id without_id"
    using none js_match_mentions [of without_id] by simp
  have nonempty: "with_id \<noteq> []" "without_id \<noteq> []"
    by (simp_all add: with_id_def without_id_def)
  have body: "lookup_prop body ''properties'' = props" "truthy props" "\<not> nullish body"
    by (simp_all add: body_def props_def)
  have conflict: "resp_status \<lparr>resp_status = 409, resp_data = d\<rparr> = 409
      \<or> opt_chain (resp_data \<lparr>resp_status = 409, resp_data = d\<rparr>) ''category''
          = JStr ''CONFLICT''" for d
    by simp
  have message: "msg \<noteq> [] \<Longrightarrow>
      or_else (opt_chain (resp_data \<lparr>resp_status = 409,
        resp_data = JObj [(''status'', JStr ''error''), (''message'', JStr msg),
                          (''category'', JStr ''CONFLICT'')]\<rparr>) ''message'') (JStr [])
      = JStr msg" for msg
    by (simp add: duplicate_contact_message)
  note with_id = contact_conflict_response
    [where crm = "scripted_crm [Inl (duplicate_contact_error with_id)]" and msg = with_id,
     OF body(3) duplicate_contact_answer conflict message [OF nonempty(1)]]
  note without_id = contact_conflict_response
    [where crm = "scripted_crm [Inl (duplicate_contact_error without_id)]" and msg = without_id,
     OF body(3) duplicate_contact_answer conflict message [OF nonempty(2)]]
  from with_id mentioned obtain ds where
    ds: "parsed_existing_id with_id ds"
    and first: "post_contacts (scripted_crm [Inl (duplicate_contact_error with_id)]) body =
      (Reply 200 (JObj [(''id'', JStr ds),
                        (''properties'', or_else (lookup_prop body ''properties'') (JObj [])),
                        (''existing'', JBool True)]),
       [create_contact_call (lookup_prop body ''properties'')])"
    by blast
  from ds parsed have "ds = ''179556362935''"
    using js_match_parsed [of with_id ds] by simp
  with first body have one:
    "post_contacts (scripted_crm [Inl (duplicate_contact_error with_id)]) body =
      (Reply 200 (JObj [(''id'', JStr ''179556362935''), (''properties'', props),
                        (''existing'', JBool True)]),
       [create_contact_call props])"
    by (simp add: or_else_def)
  from without_id unmentioned body
  have two: "post_contacts (scripted_crm [Inl (duplicate_contact_error without_id)]) body =
      (Reply 409 (JObj [(''error'', JStr ''Contact already exists''),
                        (''details'',
                         JObj [(''status'', JStr ''error''), (''message'', JStr without_id),
                               (''category'', JStr ''CONFLICT'')])]),
       [create_contact_call props])"
    by (simp add: or_else_def)
  from one two show ?thesis
    unfolding body_def props_def with_id_def without_id_def
    by simp
qed

text \<open>
  Claim C8. In the reply that stands for the existing contact (the conflict of C1, with
  an id in the message), \<open>properties\<close> is never left out: it is the empty object when
  the request body has no \<open>properties\<close> field (or a falsy one), and otherwise the
  request's own \<open>properties\<close>; so it is an object whenever the request's properties are
  an object or missing.
\<close>

theorem conflict_reply_has_properties:
  assumes "\<not> nullish body"
    and "crm [] (create_contact_call (lookup_prop body ''properties'')) = Inl e"
    and "err_response e = Some r"
    and "resp_status r = 409 \<or> opt_chain (resp_data r) ''category'' = JStr ''CONFLICT''"
    and "or_else (opt_chain (resp_data r) ''message'') (JStr []) = JStr msg"
    and "mentions_existing_id msg"
  shows "\<exists>ds props.
           post_contacts crm body =
             (Reply 200 (JObj [(''id'', JStr ds), (''properties'', props),
                               (''existing'', JBool True)]),
              [create_contact_call (lookup_prop body ''properties'')])
         \<and> props \<noteq> JUndefined
         \<and> (lookup_prop body ''properties'' = JUndefined \<longrightarrow> props = JObj [])
         \<and> (\<not> truthy (lookup_prop body ''properties'') \<longrightarrow> props = JObj [])
         \<and> (truthy (lookup_prop body ''properties'') \<longrightarrow>
               props = lookup_prop body ''properties'')
         \<and> (\<not> truthy (lookup_prop body ''properties'')
               \<or> is_object (lookup_prop body ''properties'') \<longrightarrow> is_object props)"
proof -
  from assms(6) obtain ds where ds: "js_match msg = Some ds"
    using js_match_mentions [of msg] by auto
  let ?props = "or_else (lookup_prop body ''properties'') (JObj [])"
  have "post_contacts crm body =
      (Reply 200 (JObj [(''id'', JStr ds), (''properties'', ?props),
                        (''existing'', JBool True)]),
       [create_contact_call (lookup_prop body ''properties'')])"
    by (rule conflict_with_id [where crm = crm, OF assms(1-5) ds])
  moreover have "?props \<noteq> JUndefined"
    by (auto simp: or_else_def)
  moreover have "lookup_prop body ''properties'' = JUndefined \<longrightarrow> ?props = JObj []"
    by (simp add: or_else_def)
  moreover have "\<not> truthy (lookup_prop body ''properties'') \<longrightarrow> ?props = JObj []"
    by (simp add: or_else_def)
  moreover have "truthy (lookup_prop body ''properties'') \<longrightarrow>
      ?props = lookup_prop body ''properties''"
    by (simp add: or_else_def)
  moreover have "\<not> truthy (lookup_prop body ''properties'')
      \<or> is_object (lookup_prop body ''properties'') \<longrightarrow> is_object ?props"
    by (auto simp: or_else_def)
  ultimately show ?thesis
    by blast
qed

theorem conflict_reply_has_properties_witness:
  "post_contacts
     (scripted_crm
        [Inl (duplicate_contact_error ''Contact already exists. Existing ID: 179556362935'')])
     (JObj [(''email'', JStr ''ada@example.com'')])
   = (Reply 200 (JObj [(''id'', JStr ''179556362935''), (''properties'', JObj []),
                       (''existing'', JBool True)]),
      [create_contact_call JUndefined])"
proof -
  define body where "body = JObj [(''email'', JStr ''ada@example.com'')]"
  define with_id where "with_id = ''Contact already exists. Existing ID: 179556362935''"
  have parsed: "js_match with_id = Some ''179556362935''"
    unfolding with_id_def by code_simp
  have mentioned: "mentions_existing_id with_id"
    using parsed js_match_mentions [of with_id] by simp
  have nonempty: "with_id \<noteq> []"
    by (simp add: with_id_def)
  have body: "lookup_prop body ''properties'' = JUndefined" "\<not> nullish body"
    by (simp_all add: body_def)
  have conflict: "resp_status \<lparr>resp_status = 409, resp_data = d\<rparr> = 409
      \<or> opt_chain (resp_data \<lparr>resp_status = 409, resp_data = d\<rparr>) ''category''
          = JStr ''CONFLICT''" for d
    by simp
  have message: "or_else (opt_chain (resp_data \<lparr>resp_status = 409,
        resp_data = JObj [(''status'', JStr ''error''), (''message'', JStr with_id),
                          (''category'', JStr ''CONFLICT'')]\<rparr>) ''message'') (JStr [])
      = JStr with_id"
    using nonempty by (simp add: duplicate_contact_message)
  from conflict_reply_has_properties
    [where crm = "scripted_crm [Inl (duplicate_contact_error with_id)]" and msg = with_id,
     OF body(2) duplicate_contact_answer conflict message mentioned]
  obtain ds props where
    reply: "post_contacts (scripted_crm [Inl (duplicate_contact_error with_id)]) body =
      (Reply 200 (JObj [(''id'', JStr ds), (''properties'', props),
                        (''existing'', JBool True)]),
       [create_contact_call (lookup_prop body ''properties'')])"
    and empty: "lookup_prop body ''properties'' = JUndefined \<longrightarrow> props = JObj []"
    by blast
  have "post_contacts (scripted_crm [Inl (duplicate_contact_error with_id)]) body =
      (Reply 200 (JObj [(''id'', JStr ''179556362935''),
                        (''properties'', or_else (lookup_prop body ''properties'') (JObj [])),
                        (''existing'', JBool True)]),
       [create_contact_call (lookup_prop body ''properties'')])"
    by (rule conflict_with_id
          [where crm = "scripted_crm [Inl (duplicate_contact_error with_id)]",
           OF body(2) duplicate_contact_answer conflict message parsed])
  with reply have "ds = ''179556362935''"
    by simp
  with reply empty body show ?thesis
    unfolding body_def with_id_def by simp
qed

text \<open>
  Claim C10. Of the request body the handler reads \<open>properties\<close> and nothing else. Two
  bodies whose \<open>properties\<close> read the same (the same value, or the same failure to read
  a body that is \<^verbatim>\<open>null\<close>) get the same reply and make the same calls, whatever else
  they hold and whatever the CRM does; and the payload of the create call is the object
  with the one field \<open>properties\<close>.
\<close>

theorem create_contact_reads_properties_only:
  assumes "get body ''properties'' = get body' ''properties''"
  shows "post_contacts crm body = post_contacts crm body'
       \<and> (\<forall>props. get body ''properties'' = Inr props \<longrightarrow>
            snd (post_contacts crm body) =
              [AxiosPost [Lit ''/crm/v3/objects/contacts''] (JObj [(''properties'', props)])]
          \<and> snd (post_contacts crm body') =
              [AxiosPost [Lit ''/crm/v3/objects/contacts''] (JObj [(''properties'', props)])])"
proof -
  have same_try: "post_contacts_try crm body = post_contacts_try crm body'"
    using assms by (simp add: post_contacts_try_def)
  have same_catch: "post_contacts_catch body e = post_contacts_catch body' e" for e
    unfolding post_contacts_catch_def assms by (rule refl)
  have same: "post_contacts crm body = post_contacts crm body'"
    unfolding post_contacts_def same_try same_catch by (rule refl)
  have calls: "snd (post_contacts crm body) =
      [AxiosPost [Lit ''/crm/v3/objects/contacts''] (JObj [(''properties'', props)])]"
    if "get body ''properties'' = Inr props" for props
    using that
    by (simp add: post_contacts_def post_contacts_try_def create_contact_call_def
             split: sum.splits)
  from same calls show ?thesis
    by simp
qed

theorem create_contact_reads_properties_only_witness:
  "post_contacts (scripted_crm [Inr (JObj [(''id'', JStr ''501'')])])
     (JObj [(''properties'', JObj [(''email'', JStr ''ada@example.com'')]),
            (''role'', JStr ''admin''), (''id'', JStr ''1'')])
   = post_contacts (scripted_crm [Inr (JObj [(''id'', JStr ''501'')])])
       (JObj [(''properties'', JObj [(''email'', JStr ''ada@example.com'')])])
   \<and> snd (post_contacts (scripted_crm [Inr (JObj [(''id'', JStr ''501'')])])
            (JObj [(''properties'', JObj [(''email'', JStr ''ada@example.com'')]),
                   (''role'', JStr ''admin''), (''id'', JStr ''1'')]))
   = [AxiosPost [Lit ''/crm/v3/objects/contacts'']
        (JObj [(''properties'', JObj [(''email'', JStr ''ada@example.com'')])])]"
proof -
  define props where "props = JObj [(''email'', JStr ''ada@example.com'')]"
  define body where
    "body = JObj [(''properties'', props), (''role'', JStr ''admin''), (''id'', JStr ''1'')]"
  define body' where "body' = JObj [(''properties'', props)]"
  have reads: "get body ''properties'' = Inr props" "get body' ''properties'' = Inr props"
    by (simp_all add: get_def body_def body'_def)
  then have "get body ''properties'' = get body' ''properties''"
    by simp
  from create_contact_reads_properties_only
         [where crm = "scripted_crm [Inr (JObj [(''id'', JStr ''501'')])]", OF this] reads(1)
  show ?thesis
    unfolding body_def body'_def props_def by blast
qed

section \<open>Finding a contact by email\<close>

text \<open>
  Claim C6. Without an \<open>email\<close> query parameter (or with an empty one) the reply is 400
  and no call is made. With one, the handler makes one call, the search for the contacts
  whose property \<open>email\<close> equals (\<^verbatim>\<open>EQ\<close>) the parameter, asking for \<open>firstname\<close>,
  \<open>lastname\<close> and \<open>email\<close> and for one result at most. When the search answers with no
  result (an empty \<open>results\<close>, or none), the reply is \<^verbatim>\<open>{ found: false }\<close>; when it
  answers with results, the reply is \<^verbatim>\<open>{ found: true, contact: { id, properties } }\<close>
  with the \<open>id\<close> and \<open>properties\<close> of the first.
\<close>

theorem find_contact_by_email_contract:
  "(\<not> truthy (lookup_prop (JObj query) ''email'') \<longrightarrow>
      get_contact_by_email crm query =
        (Reply 400 (JObj [(''error'', JStr ''Missing email parameter''),
                          (''details'', JStr ''Please provide ?email=example@domain.com'')]),
         []))
   \<and> (\<forall>email response.
         lookup_prop (JObj query) ''email'' = email \<and> truthy email
         \<and> crm []
              (DoSearch (JObj
                 [(''filterGroups'',
                   JArr [JObj [(''filters'',
                                JArr [JObj [(''propertyName'', JStr ''email''),
                                            (''operator'', JStr ''EQ''),
                                            (''value'', email)]])]]),
                  (''properties'',
                   JArr [JStr ''firstname'', JStr ''lastname'', JStr ''email'']),
                  (''limit'', JNum 1)])) = Inr response
         \<and> \<not> nullish response \<longrightarrow>
           (lookup_prop response ''results'' = JArr []
              \<or> \<not> truthy (lookup_prop response ''results'') \<longrightarrow>
              get_contact_by_email crm query =
                (Reply 200 (JObj [(''found'', JBool False)]),
                 [DoSearch (JObj
                    [(''filterGroups'',
                      JArr [JObj [(''filters'',
                                   JArr [JObj [(''propertyName'', JStr ''email''),
                                               (''operator'', JStr ''EQ''),
                                               (''value'', email)]])]]),
                     (''properties'',
                      JArr [JStr ''firstname'', JStr ''lastname'', JStr ''email'']),
                     (''limit'', JNum 1)])]))
         \<and> (\<forall>c cs. lookup_prop response ''results'' = JArr (c # cs) \<and> \<not> nullish c \<longrightarrow>
                get_contact_by_email crm query =
                  (Reply 200
                     (JObj [(''found'', JBool True),
                            (''contact'',
                             JObj [(''id'', lookup_prop c ''id''),
                                   (''properties'', lookup_prop c ''properties'')])]),
                   [DoSearch (JObj
                      [(''filterGroups'',
                        JArr [JObj [(''filters'',
                                     JArr [JObj [(''propertyName'', JStr ''email''),
                                                 (''operator'', JStr ''EQ''),
                                                 (''value'', email)]])]]),
                       (''properties'',
                        JArr [JStr ''firstname'', JStr ''lastname'', JStr ''email'']),
                       (''limit'', JNum 1)])])))
   \<and> (\<forall>email.
         search_call email =
           DoSearch (JObj
             [(''filterGroups'',
               JArr [JObj [(''filters'',
                            JArr [JObj [(''propertyName'', JStr ''email''),
                                        (''operator'', JStr ''EQ''),
                                        (''value'', email)]])]]),
              (''properties'', JArr [JStr ''firstname'', JStr ''lastname'', JStr ''email'']),
              (''limit'', JNum 1)]))"
  by (auto simp: get_contact_by_email_def by_email_try_def get_def or_else_def failure_def
                 search_call_def Let_def)

theorem find_contact_by_email_contract_witness:
  "get_contact_by_email (scripted_crm []) []
     = (Reply 400 (JObj [(''error'', JStr ''Missing email parameter''),
                         (''details'', JStr ''Please provide ?email=example@domain.com'')]),
        [])
   \<and> get_contact_by_email
       (scripted_crm [Inr (JObj [(''total'', JNum 0), (''results'', JArr [])])])
       [(''email'', JStr ''ada@example.com'')]
     = (Reply 200 (JObj [(''found'', JBool False)]),
        [DoSearch (JObj
           [(''filterGroups'',
             JArr [JObj [(''filters'',
                          JArr [JObj [(''propertyName'', JStr ''email''),
                                      (''operator'', JStr ''EQ''),
                                      (''value'', JStr ''ada@example.com'')]])]]),
            (''properties'', JArr [JStr ''firstname'', JStr ''lastname'', JStr ''email'']),
            (''limit'', JNum 1)])])
   \<and> get_contact_by_email
       (scripted_crm
          [Inr (JObj [(''total'', JNum 1),
                      (''results'',
                       JArr [JObj [(''id'', JStr ''501''),
                                   (''properties'',
                                    JObj [(''email'', JStr ''ada@example.com'')])]])])])
       [(''email'', JStr ''ada@example.com'')]
     = (Reply 200
          (JObj [(''found'', JBool True),
                 (''contact'',
                  JObj [(''id'', JStr ''501''),
                        (''properties'', JObj [(''email'', JStr ''ada@example.com'')])])]),
        [DoSearch (JObj
           [(''filterGroups'',
             JArr [JObj [(''filters'',
                          JArr [JObj [(''propertyName'', JStr ''email''),
                                      (''operator'', JStr ''EQ''),
                                      (''value'', JStr ''ada@example.com'')]])]]),
            (''properties'', JArr [JStr ''firstname'', JStr ''lastname'', JStr ''email'']),
            (''limit'', JNum 1)])])"
proof -
  define email where "email = JStr ''ada@example.com''"
  define query where "query = [(''email'', email)]"
  define search where
    "search = DoSearch (JObj
       [(''filterGroups'',
         JArr [JObj [(''filters'',
                      JArr [JObj [(''propertyName'', JStr ''email''),
                                  (''operator'', JStr ''EQ''),
                                  (''value'', email)]])]]),
        (''properties'', JArr [JStr ''firstname'', JStr ''lastname'', JStr ''email'']),
        (''limit'', JNum 1)])"
  define contact where
    "contact = JObj [(''id'', JStr ''501''),
                     (''properties'', JObj [(''email'', JStr ''ada@example.com'')])]"
  define no_match where "no_match = JObj [(''total'', JNum 0), (''results'', JArr [])]"
  define a_match where "a_match = JObj [(''total'', JNum 1), (''results'', JArr [contact])]"
  have asked: "lookup_prop (JObj query) ''email'' = email" "truthy email"
    by (simp_all add: query_def email_def)
  have unasked: "\<not> truthy (lookup_prop (JObj []) ''email'')"
    by simp
  have answers: "scripted_crm [Inr a] [] call = Inr a" for a call
    by (simp add: scripted_crm_def)
  have no_match: "\<not> nullish no_match" "lookup_prop no_match ''results'' = JArr []"
    by (simp_all add: no_match_def)
  have a_match: "\<not> nullish a_match" "lookup_prop a_match ''results'' = JArr [contact]"
    "\<not> nullish contact" "lookup_prop contact ''id'' = JStr ''501''"
    "lookup_prop contact ''properties'' = JObj [(''email'', JStr ''ada@example.com'')]"
    by (simp_all add: a_match_def contact_def)
  have one: "get_contact_by_email (scripted_crm []) [] =
      (Reply 400 (JObj [(''error'', JStr ''Missing email parameter''),
                        (''details'', JStr ''Please provide ?email=example@domain.com'')]),
       [])"
    using find_contact_by_email_contract [where crm = "scripted_crm []" and query = "[]"]
          unasked
    by simp
  have two: "get_contact_by_email (scripted_crm [Inr no_match]) query =
      (Reply 200 (JObj [(''found'', JBool False)]), [search])"
    using find_contact_by_email_contract
            [where crm = "scripted_crm [Inr no_match]" and query = query]
          asked answers [of no_match] no_match
    unfolding search_def
    by simp
  have three: "get_contact_by_email (scripted_crm [Inr a_match]) query =
      (Reply 200
         (JObj [(''found'', JBool True),
                (''contact'',
                 JObj [(''id'', lookup_prop contact ''id''),
                       (''properties'', lookup_prop contact ''properties'')])]),
       [search])"
    using find_contact_by_email_contract
            [where crm = "scripted_crm [Inr a_match]" and query = query]
          asked answers [of a_match] a_match(1,2,3)
    unfolding search_def
    by simp
  from one two three a_match(4,5) show ?thesis
    unfolding search_def query_def email_def no_match_def a_match_def contact_def
    by simp
qed

section \<open>Creating a deal\<close>

text \<open>
  Claim C2, as the code has it. The body is a JSON value other than \<^verbatim>\<open>null\<close>. When
  \<open>dealProperties\<close> or \<open>contactId\<close> is missing (or falsy), the reply is 400 and no call
  is made. When both are there, the first call creates the deal; if the CRM rejects it,
  it is the only call; if the CRM answers with the deal, the second and last call
  associates the deal's \<open>id\<close> with the \<open>contactId\<close>, through association type 3, and when
  that call succeeds too the reply is the deal, with status 200.
\<close>

theorem create_deal_call_sequence:
  assumes "\<not> nullish body"
    and "dealProperties = lookup_prop body ''dealProperties''"
    and "contactId = lookup_prop body ''contactId''"
  shows "(\<not> truthy dealProperties \<or> \<not> truthy contactId \<longrightarrow>
            (\<exists>details.
               post_deals crm body =
                 (Reply 400 (JObj [(''error'', JStr ''Missing dealProperties or contactId''),
                                   (''details'', JStr details)]), [])))
       \<and> (truthy dealProperties \<and> truthy contactId \<longrightarrow>
            (\<forall>e. crm [] (create_deal_call dealProperties) = Inl e \<longrightarrow>
                  snd (post_deals crm body) = [create_deal_call dealProperties])
          \<and> (\<forall>deal. crm [] (create_deal_call dealProperties) = Inr deal \<and> \<not> nullish deal \<longrightarrow>
                  snd (post_deals crm body) =
                    [AxiosPost [Lit ''/crm/v3/objects/deals'']
                       (JObj [(''properties'', dealProperties)]),
                     AxiosPut [Lit ''/crm/v3/objects/deals/'', Interp (lookup_prop deal ''id''),
                               Lit ''/associations/contacts/'', Interp contactId, Lit ''/3'']]
                \<and> (\<forall>r. crm [create_deal_call dealProperties]
                             (associate_call (lookup_prop deal ''id'') contactId) = Inr r \<longrightarrow>
                         fst (post_deals crm body) = Reply 200 deal)))"
  using assms
  by (auto simp: post_deals_def post_deals_try_def get_def failure_def Let_def
                 create_deal_call_def associate_call_def
           split: sum.splits)

theorem create_deal_call_sequence_witness:
  "(\<exists>details.
      post_deals (scripted_crm []) (JObj [(''dealProperties'', JObj [(''dealname'', JStr ''Bulk order'')])])
        = (Reply 400 (JObj [(''error'', JStr ''Missing dealProperties or contactId''),
                            (''details'', JStr details)]), []))
   \<and> snd (post_deals
            (scripted_crm [Inl (http_error 400 ''Request failed with status code 400''
                                  (JObj [(''category'', JStr ''VALIDATION_ERROR'')]))])
            (JObj [(''dealProperties'', JObj [(''dealname'', JStr ''Bulk order'')]),
                   (''contactId'', JStr ''77'')]))
     = [create_deal_call (JObj [(''dealname'', JStr ''Bulk order'')])]
   \<and> post_deals
       (scripted_crm [Inr (JObj [(''id'', JStr ''9001'')]), Inr (JObj [])])
       (JObj [(''dealProperties'', JObj [(''dealname'', JStr ''Bulk order'')]),
              (''contactId'', JStr ''77'')])
     = (Reply 200 (JObj [(''id'', JStr ''9001'')]),
        [create_deal_call (JObj [(''dealname'', JStr ''Bulk order'')]),
         associate_call (JStr ''9001'') (JStr ''77'')])"
proof -
  define dp where "dp = JObj [(''dealname'', JStr ''Bulk order'')]"
  define cid where "cid = JStr ''77''"
  define body where "body = JObj [(''dealProperties'', dp), (''contactId'', cid)]"
  define partial where "partial = JObj [(''dealProperties'', dp)]"
  define deal where "deal = JObj [(''id'', JStr ''9001'')]"
  define refusal where
    "refusal = http_error 400 ''Request failed with status code 400''
                 (JObj [(''category'', JStr ''VALIDATION_ERROR'')])"
  have body: "\<not> nullish body" "lookup_prop body ''dealProperties'' = dp"
    "lookup_prop body ''contactId'' = cid" "truthy dp" "truthy cid"
    by (simp_all add: body_def dp_def cid_def)
  have partial: "\<not> nullish partial" "lookup_prop partial ''dealProperties'' = dp"
    "lookup_prop partial ''contactId'' = JUndefined"
    by (simp_all add: partial_def)
  have deal: "\<not> nullish deal" "lookup_prop deal ''id'' = JStr ''9001''"
    by (simp_all add: deal_def)
  have first: "scripted_crm (a # rest) [] call = a" for a rest call
    by (simp add: scripted_crm_def)
  have second: "scripted_crm [a, b] [c] call = b" for a b c call
    by (simp add: scripted_crm_def)
  have one: "\<exists>details. post_deals (scripted_crm []) partial =
      (Reply 400 (JObj [(''error'', JStr ''Missing dealProperties or contactId''),
                        (''details'', JStr details)]), [])"
    using create_deal_call_sequence
            [where crm = "scripted_crm []", OF partial(1) partial(2) [symmetric]
               partial(3) [symmetric]]
    by simp
  have two: "snd (post_deals (scripted_crm [Inl refusal]) body) = [create_deal_call dp]"
    using create_deal_call_sequence
            [where crm = "scripted_crm [Inl refusal]", OF body(1) body(2) [symmetric]
               body(3) [symmetric]]
          body(4,5) first [of "Inl refusal" "[]"]
    by simp
  have three: "post_deals (scripted_crm [Inr deal, Inr (JObj [])]) body =
      (Reply 200 deal, [create_deal_call dp, associate_call (lookup_prop deal ''id'') cid])"
    using create_deal_call_sequence
            [where crm = "scripted_crm [Inr deal, Inr (JObj [])]", OF body(1)
               body(2) [symmetric] body(3) [symmetric]]
          body(4,5) deal(1) first [of "Inr deal" "[Inr (JObj [])]"]
          second [of "Inr deal" "Inr (JObj [])"]
    by (simp add: prod_eq_iff create_deal_call_def associate_call_def)
  from one two three deal(2) show ?thesis
    unfolding body_def partial_def dp_def cid_def deal_def refusal_def
    by simp
qed

text \<open>
  The claim as it is written says two calls for every request that has both fields.
  Here the body has both and the CRM rejects the creation of the deal: there is one
  call, and no association.
\<close>

theorem create_deal_one_call_counterexample:
  "truthy (lookup_prop (JObj [(''dealProperties'', JObj [(''dealname'', JStr ''Bulk order'')]),
                              (''contactId'', JStr ''77'')]) ''dealProperties'')
   \<and> truthy (lookup_prop (JObj [(''dealProperties'', JObj [(''dealname'', JStr ''Bulk order'')]),
                                (''contactId'', JStr ''77'')]) ''contactId'')
   \<and> post_deals
       (scripted_crm [Inl (http_error 400 ''Request failed with status code 400''
                             (JObj [(''category'', JStr ''VALIDATION_ERROR'')]))])
       (JObj [(''dealProperties'', JObj [(''dealname'', JStr ''Bulk order'')]),
              (''contactId'', JStr ''77'')])
     = (Reply 500 (JObj [(''error'', JStr ''Failed to create deal''),
                         (''details'', JObj [(''category'', JStr ''VALIDATION_ERROR'')])]),
        [AxiosPost [Lit ''/crm/v3/objects/deals'']
           (JObj [(''properties'', JObj [(''dealname'', JStr ''Bulk order'')])])])
   \<and> length (snd (post_deals
       (scripted_crm [Inl (http_error 400 ''Request failed with status code 400''
                             (JObj [(''category'', JStr ''VALIDATION_ERROR'')]))])
       (JObj [(''dealProperties'', JObj [(''dealname'', JStr ''Bulk order'')]),
              (''contactId'', JStr ''77'')]))) \<noteq> 2"
  by (simp add: post_deals_def post_deals_try_def create_deal_call_def scripted_crm_def
                failure_def error_details_def response_data_def http_error_def or_else_def)

text \<open>
  Claim C3, as the code has it. The deal is created (the CRM answers with a JSON value
  other than \<^verbatim>\<open>null\<close>) and the association fails with the error \<open>e\<close>. The reply is 500
  with the label \<^verbatim>\<open>Failed to create deal\<close> and, as \<open>details\<close>, the response body of \<open>e\<close>
  or its message. The create call and the association call are the only calls: nothing
  deletes the deal. The handler writes nothing of the deal into the reply: a string that
  stands in the reply is the label or stands in the details of \<open>e\<close>, and the reply is the
  same whatever deal was created, given the same error.
\<close>

theorem association_failure_reply:
  assumes "\<not> nullish body"
    and "dealProperties = lookup_prop body ''dealProperties''"
    and "contactId = lookup_prop body ''contactId''"
    and "truthy dealProperties" and "truthy contactId"
    and "crm [] (create_deal_call dealProperties) = Inr deal"
    and "\<not> nullish deal"
    and "crm [create_deal_call dealProperties]
             (associate_call (lookup_prop deal ''id'') contactId) = Inl e"
  shows "post_deals crm body =
           (Reply 500 (JObj [(''error'', JStr ''Failed to create deal''),
                             (''details'', or_else (response_data e) (JStr (err_message e)))]),
            [create_deal_call dealProperties,
             associate_call (lookup_prop deal ''id'') contactId])
       \<and> (\<forall>code reply. fst (post_deals crm body) = Reply code reply \<longrightarrow>
             set (json_strings reply) =
               insert ''Failed to create deal''
                 (set (json_strings (or_else (response_data e) (JStr (err_message e))))))
       \<and> (\<forall>crm' deal'.
             crm' [] (create_deal_call dealProperties) = Inr deal' \<and> \<not> nullish deal'
             \<and> crm' [create_deal_call dealProperties]
                    (associate_call (lookup_prop deal' ''id'') contactId) = Inl e \<longrightarrow>
             fst (post_deals crm' body) = fst (post_deals crm body))"
  using assms
  by (auto simp: post_deals_def post_deals_try_def get_def failure_def Let_def error_details_def
           split: sum.splits)

theorem association_failure_reply_witness:
  "post_deals
     (scripted_crm [Inr (JObj [(''id'', JStr ''9001'')]), Inl network_error])
     (JObj [(''dealProperties'', JObj [(''dealname'', JStr ''Bulk order'')]),
            (''contactId'', JStr ''77'')])
   = (Reply 500 (JObj [(''error'', JStr ''Failed to create deal''),
                       (''details'', JStr ''Network Error'')]),
      [create_deal_call (JObj [(''dealname'', JStr ''Bulk order'')]),
       associate_call (JStr ''9001'') (JStr ''77'')])
   \<and> fst (post_deals
            (scripted_crm [Inr (JObj [(''id'', JStr ''9002'')]), Inl network_error])
            (JObj [(''dealProperties'', JObj [(''dealname'', JStr ''Bulk order'')]),
                   (''contactId'', JStr ''77'')]))
   = Reply 500 (JObj [(''error'', JStr ''Failed to create deal''),
                      (''details'', JStr ''Network Error'')])"
proof -
  define dp where "dp = JObj [(''dealname'', JStr ''Bulk order'')]"
  define cid where "cid = JStr ''77''"
  define body where "body = JObj [(''dealProperties'', dp), (''contactId'', cid)]"
  define deal where "deal = JObj [(''id'', JStr ''9001'')]"
  define deal' where "deal' = JObj [(''id'', JStr ''9002'')]"
  have body: "\<not> nullish body" "dp = lookup_prop body ''dealProperties''"
    "cid = lookup_prop body ''contactId''" "truthy dp" "truthy cid"
    by (simp_all add: body_def dp_def cid_def)
  have deal: "\<not> nullish deal" "lookup_prop deal ''id'' = JStr ''9001''" "\<not> nullish deal'"
    by (simp_all add: deal_def deal'_def)
  have first: "scripted_crm [a, b] [] call = a" for a b call
    by (simp add: scripted_crm_def)
  have second: "scripted_crm [a, b] [c] call = b" for a b c call
    by (simp add: scripted_crm_def)
  have details: "or_else (response_data network_error) (JStr (err_message network_error))
      = JStr ''Network Error''"
    by (simp add: network_error_def response_data_def or_else_def)
  note reply = association_failure_reply
    [where crm = "scripted_crm [Inr deal, Inl network_error]",
     OF body first [of "Inr deal"] deal(1) second [of "Inr deal" "Inl network_error"]]
  from reply have one: "post_deals (scripted_crm [Inr deal, Inl network_error]) body =
      (Reply 500 (JObj [(''error'', JStr ''Failed to create deal''),
                        (''details'', JStr ''Network Error'')]),
       [create_deal_call dp, associate_call (lookup_prop deal ''id'') cid])"
    by (simp add: details)
  from reply first [of "Inr deal'" "Inl network_error"] deal(3)
       second [of "Inr deal'" "Inl network_error"]
  have "fst (post_deals (scripted_crm [Inr deal', Inl network_error]) body) =
      fst (post_deals (scripted_crm [Inr deal, Inl network_error]) body)"
    by simp
  with one have two: "fst (post_deals (scripted_crm [Inr deal', Inl network_error]) body) =
      Reply 500 (JObj [(''error'', JStr ''Failed to create deal''),
                       (''details'', JStr ''Network Error'')])"
    by simp
  from one two deal(2) show ?thesis
    unfolding body_def dp_def cid_def deal_def deal'_def
    by simp
qed

text \<open>
  The claim as it is written says that the id of the created deal is not in the body of
  the error reply. The reply passes the CRM's error on as it is; here the CRM names the
  deal in the context of its error, as it does for the objects of a failed call, and the
  id 9001 stands in the reply.
\<close>

theorem association_failure_names_deal_counterexample:
  "post_deals
     (scripted_crm
        [Inr (JObj [(''id'', JStr ''9001'')]),
         Inl (http_error 404 ''Request failed with status code 404''
                (JObj [(''status'', JStr ''error''),
                       (''message'', JStr ''Object not found''),
                       (''context'', JObj [(''fromObjectId'', JArr [JStr ''9001''])])]))])
     (JObj [(''dealProperties'', JObj [(''dealname'', JStr ''Bulk order'')]),
            (''contactId'', JStr ''77'')])
   = (Reply 500
        (JObj [(''error'', JStr ''Failed to create deal''),
               (''details'',
                JObj [(''status'', JStr ''error''),
                      (''message'', JStr ''Object not found''),
                      (''context'', JObj [(''fromObjectId'', JArr [JStr ''9001''])])])]),
      [create_deal_call (JObj [(''dealname'', JStr ''Bulk order'')]),
       associate_call (JStr ''9001'') (JStr ''77'')])
   \<and> ''9001'' \<in> set (json_strings
        (JObj [(''error'', JStr ''Failed to create deal''),
               (''details'',
                JObj [(''status'', JStr ''error''),
                      (''message'', JStr ''Object not found''),
                      (''context'', JObj [(''fromObjectId'', JArr [JStr ''9001''])])])]))"
  by (simp add: post_deals_def post_deals_try_def scripted_crm_def get_def
                failure_def error_details_def response_data_def http_error_def or_else_def)

section \<open>Listing the deals of a contact\<close>

text \<open>
  Claim C5. The listing of associations answers (with a JSON value other than
  \<^verbatim>\<open>null\<close>) and there is no association in it: \<open>results\<close> is empty, or there is none.
  The reply is \<^verbatim>\<open>{ results: [] }\<close> and the listing is the only call: no batch read.
\<close>

theorem no_associations_no_batch_read:
  assumes "crm [] (list_associations_call contactId) = Inr d"
    and "\<not> nullish d"
    and "lookup_prop d ''results'' = JArr [] \<or> \<not> truthy (lookup_prop d ''results'')"
  shows "get_contact_deals crm contactId =
           (Reply 200 (JObj [(''results'', JArr [])]), [list_associations_call contactId])"
  using assms
  by (auto simp: get_contact_deals_def contact_deals_try_def get_def or_else_def
                 to_object_ids_def)

theorem no_associations_no_batch_read_witness:
  "get_contact_deals (scripted_crm [Inr (JObj [(''results'', JArr [])])]) ''77''
     = (Reply 200 (JObj [(''results'', JArr [])]), [list_associations_call ''77''])
   \<and> get_contact_deals (scripted_crm [Inr (JObj [])]) ''77''
     = (Reply 200 (JObj [(''results'', JArr [])]), [list_associations_call ''77''])"
proof -
  have answers: "scripted_crm [Inr a] [] call = Inr a" for a call
    by (simp add: scripted_crm_def)
  have "get_contact_deals (scripted_crm [Inr (JObj [(''results'', JArr [])])]) ''77''
     = (Reply 200 (JObj [(''results'', JArr [])]), [list_associations_call ''77''])"
    by (rule no_associations_no_batch_read
          [where crm = "scripted_crm [Inr (JObj [(''results'', JArr [])])]", OF answers])
       simp_all
  moreover have "get_contact_deals (scripted_crm [Inr (JObj [])]) ''77''
     = (Reply 200 (JObj [(''results'', JArr [])]), [list_associations_call ''77''])"
    by (rule no_associations_no_batch_read
          [where crm = "scripted_crm [Inr (JObj [])]", OF answers])
       simp_all
  ultimately show ?thesis
    by simp
qed

text \<open>
  Claim C9. The listing answers with the associations \<open>assocs\<close>, each a JSON value other
  than \<^verbatim>\<open>null\<close>. The ids the batch read asks for are the \<open>toObjectId\<close> of the
  associations that are truthy, in order: an association whose \<open>toObjectId\<close> is missing
  or falsy is left out. When no association has a truthy \<open>toObjectId\<close>, also when
  \<open>assocs\<close> is not empty, the reply is \<^verbatim>\<open>{ results: [] }\<close> and the listing is the only
  call.
\<close>

theorem associations_without_deal_id_dropped:
  assumes "crm [] (list_associations_call contactId) = Inr d"
    and "\<not> nullish d"
    and "lookup_prop d ''results'' = JArr assocs"
    and "\<forall>a\<in>set assocs. \<not> nullish a"
  shows "(filter truthy (map (\<lambda>a. lookup_prop a ''toObjectId'') assocs) \<noteq> [] \<longrightarrow>
            snd (get_contact_deals crm contactId) =
              [list_associations_call contactId,
               AxiosPost [Lit ''/crm/v3/objects/deals/batch/read'']
                 (JObj [(''properties'', JArr (map JStr deal_properties)),
                        (''inputs'',
                         JArr (map (\<lambda>i. JObj [(''id'', i)])
                                 (filter truthy
                                    (map (\<lambda>a. lookup_prop a ''toObjectId'') assocs))))])])
       \<and> ((\<forall>a\<in>set assocs. \<not> truthy (lookup_prop a ''toObjectId'')) \<longrightarrow>
            get_contact_deals crm contactId =
              (Reply 200 (JObj [(''results'', JArr [])]), [list_associations_call contactId]))"
proof -
  let ?ids = "map (\<lambda>a. lookup_prop a ''toObjectId'') assocs"
  have ids: "to_object_ids (or_else (lookup_prop d ''results'') (JArr [])) = Inr ?ids"
    using assms(3,4) by (simp add: or_else_def to_object_ids_array)
  have none: "filter truthy ?ids = []"
    if "\<forall>a\<in>set assocs. \<not> truthy (lookup_prop a ''toObjectId'')"
    using that by (simp add: filter_empty_conv)
  show ?thesis
    using assms(1,2) ids none
    by (auto simp: get_contact_deals_def contact_deals_try_def get_def Let_def
                   batch_read_call_def
             split: sum.splits)
qed

theorem associations_without_deal_id_dropped_witness:
  "snd (get_contact_deals
          (scripted_crm
             [Inr (JObj [(''results'',
                          JArr [JObj [(''toObjectId'', JNum 9001)],
                                JObj [(''associationTypes'', JArr [])],
                                JObj [(''toObjectId'', JNum 9003)]])])])
          ''77'')
   = [list_associations_call ''77'',
      AxiosPost [Lit ''/crm/v3/objects/deals/batch/read'']
        (JObj [(''properties'', JArr (map JStr deal_properties)),
               (''inputs'', JArr [JObj [(''id'', JNum 9001)], JObj [(''id'', JNum 9003)]])])]
   \<and> get_contact_deals
       (scripted_crm
          [Inr (JObj [(''results'',
                       JArr [JObj [(''associationTypes'', JArr [])],
                             JObj [(''toObjectId'', JNull)]])])])
       ''77''
   = (Reply 200 (JObj [(''results'', JArr [])]), [list_associations_call ''77''])"
proof -
  define some where
    "some = [JObj [(''toObjectId'', JNum 9001)], JObj [(''associationTypes'', JArr [])],
             JObj [(''toObjectId'', JNum 9003)]]"
  define none where
    "none = [JObj [(''associationTypes'', JArr [])], JObj [(''toObjectId'', JNull)]]"
  have answers: "scripted_crm [Inr a] [] call = Inr a" for a call
    by (simp add: scripted_crm_def)
  have listing: "\<not> nullish (JObj [(''results'', JArr xs)])"
    "lookup_prop (JObj [(''results'', JArr xs)]) ''results'' = JArr xs" for xs
    by simp_all
  have some: "\<forall>a\<in>set some. \<not> nullish a"
    "filter truthy (map (\<lambda>a. lookup_prop a ''toObjectId'') some) = [JNum 9001, JNum 9003]"
    by (simp_all add: some_def)
  have none: "\<forall>a\<in>set none. \<not> nullish a"
    "\<forall>a\<in>set none. \<not> truthy (lookup_prop a ''toObjectId'')"
    by (simp_all add: none_def)
  have one: "snd (get_contact_deals (scripted_crm [Inr (JObj [(''results'', JArr some)])]) ''77'')
      = [list_associations_call ''77'',
         AxiosPost [Lit ''/crm/v3/objects/deals/batch/read'']
           (JObj [(''properties'', JArr (map JStr deal_properties)),
                  (''inputs'', JArr [JObj [(''id'', JNum 9001)], JObj [(''id'', JNum 9003)]])])]"
    using associations_without_deal_id_dropped
            [where crm = "scripted_crm [Inr (JObj [(''results'', JArr some)])]",
             OF answers listing some(1)]
    by (simp add: some(2))
  have two: "get_contact_deals (scripted_crm [Inr (JObj [(''results'', JArr none)])]) ''77''
      = (Reply 200 (JObj [(''results'', JArr [])]), [list_associations_call ''77''])"
    using associations_without_deal_id_dropped
            [where crm = "scripted_crm [Inr (JObj [(''results'', JArr none)])]",
             OF answers listing none(1)]
          none(2)
    by simp
  from one two show ?thesis
    unfolding some_def none_def by simp
qed

text \<open>
  Claim C4, as the code has it. The listing (a GET of the contact's associations with
  deals, \<open>limit\<close> 100) answers with the associations \<open>assocs\<close>, each a JSON value other
  than \<^verbatim>\<open>null\<close>; \<open>dealIds\<close> are the \<open>toObjectId\<close> of those that have a truthy one, in
  order: as many as there are associations when each has one, fewer otherwise. When
  \<open>dealIds\<close> is empty there is no batch read and the reply is \<^verbatim>\<open>{ results: [] }\<close>.
  Otherwise the handler makes two calls, the listing and one batch read whose \<open>inputs\<close>
  are all of \<open>dealIds\<close>; when the batch read answers (with a JSON value other than
  \<^verbatim>\<open>null\<close>), the reply is 200 with \<open>results\<close> the \<open>results\<close> of that answer as they are
  (\<open>[]\<close> when it has none). The handler neither adds nor drops a record: there are as
  many as the asked ids, or fewer, when the CRM returns no more records than it was asked
  for.
\<close>

theorem batch_read_of_associated_deals:
  assumes "crm [] (list_associations_call contactId) = Inr d"
    and "\<not> nullish d"
    and "lookup_prop d ''results'' = JArr assocs"
    and "\<forall>a\<in>set assocs. \<not> nullish a"
    and "dealIds = filter truthy (map (\<lambda>a. lookup_prop a ''toObjectId'') assocs)"
  shows "list_associations_call contactId =
           AxiosGet [Lit ''/crm/v4/objects/contacts/'', Interp (JStr contactId),
                     Lit ''/associations/deals'']
             [(''limit'', JNum 100)]
       \<and> length dealIds \<le> length assocs
       \<and> ((\<forall>a\<in>set assocs. truthy (lookup_prop a ''toObjectId'')) \<longrightarrow>
              dealIds = map (\<lambda>a. lookup_prop a ''toObjectId'') assocs
            \<and> length dealIds = length assocs)
       \<and> (dealIds = [] \<longrightarrow>
              get_contact_deals crm contactId =
                (Reply 200 (JObj [(''results'', JArr [])]), [list_associations_call contactId]))
       \<and> (dealIds \<noteq> [] \<longrightarrow>
              snd (get_contact_deals crm contactId) =
                [list_associations_call contactId,
                 AxiosPost [Lit ''/crm/v3/objects/deals/batch/read'']
                   (JObj [(''properties'',
                           JArr [JStr ''dealname'', JStr ''amount'', JStr ''dealstage'',
                                 JStr ''closedate'', JStr ''pipeline'']),
                          (''inputs'', JArr (map (\<lambda>i. JObj [(''id'', i)]) dealIds))])]
            \<and> (\<forall>b. crm [list_associations_call contactId] (batch_read_call dealIds) = Inr b
                     \<and> \<not> nullish b \<longrightarrow>
                   fst (get_contact_deals crm contactId) =
                     Reply 200
                       (JObj [(''results'', or_else (lookup_prop b ''results'') (JArr []))])
                 \<and> (\<forall>records. lookup_prop b ''results'' = JArr records \<longrightarrow>
                        fst (get_contact_deals crm contactId) =
                          Reply 200 (JObj [(''results'', JArr records)])
                      \<and> (length records \<le> length dealIds \<longrightarrow>
                            length records \<le> length assocs))))"
proof -
  let ?ids = "map (\<lambda>a. lookup_prop a ''toObjectId'') assocs"
  have ids: "to_object_ids (or_else (lookup_prop d ''results'') (JArr [])) = Inr ?ids"
    using assms(3,4) by (simp add: or_else_def to_object_ids_array)
  have fewer: "length dealIds \<le> length assocs"
    unfolding assms(5) using length_filter_le [of truthy ?ids] by simp
  have all: "dealIds = ?ids \<and> length dealIds = length assocs"
    if "\<forall>a\<in>set assocs. truthy (lookup_prop a ''toObjectId'')"
    unfolding assms(5) using that by (simp add: filter_id_conv)
  have listing: "list_associations_call contactId =
      AxiosGet [Lit ''/crm/v4/objects/contacts/'', Interp (JStr contactId),
                Lit ''/associations/deals'']
        [(''limit'', JNum 100)]"
    by (simp add: list_associations_call_def)
  have call: "batch_read_call dealIds =
      AxiosPost [Lit ''/crm/v3/objects/deals/batch/read'']
        (JObj [(''properties'',
                JArr [JStr ''dealname'', JStr ''amount'', JStr ''dealstage'',
                      JStr ''closedate'', JStr ''pipeline'']),
               (''inputs'', JArr (map (\<lambda>i. JObj [(''id'', i)]) dealIds))])"
    by (simp add: batch_read_call_def deal_properties_def)
  have skipped: "get_contact_deals crm contactId =
      (Reply 200 (JObj [(''results'', JArr [])]), [list_associations_call contactId])"
    if "dealIds = []"
    using assms(1,2) ids that [unfolded assms(5)]
    by (simp add: get_contact_deals_def contact_deals_try_def get_def)
  have calls: "snd (get_contact_deals crm contactId) =
      [list_associations_call contactId, batch_read_call dealIds]"
    if "dealIds \<noteq> []"
    using assms(1,2) ids that unfolding assms(5)
    by (auto simp: get_contact_deals_def contact_deals_try_def get_def Let_def
             split: sum.splits)
  have answered: "fst (get_contact_deals crm contactId) =
      Reply 200 (JObj [(''results'', or_else (lookup_prop b ''results'') (JArr []))])"
    if "dealIds \<noteq> []"
      and "crm [list_associations_call contactId] (batch_read_call dealIds) = Inr b"
      and "\<not> nullish b" for b
    using assms(1,2) ids that unfolding assms(5)
    by (simp add: get_contact_deals_def contact_deals_try_def get_def Let_def)
  have records: "fst (get_contact_deals crm contactId) =
      Reply 200 (JObj [(''results'', JArr records)])"
    if "dealIds \<noteq> []"
      and "crm [list_associations_call contactId] (batch_read_call dealIds) = Inr b"
      and "\<not> nullish b" and "lookup_prop b ''results'' = JArr records" for b records
    using answered [OF that(1,2,3)] that(4) by (simp add: or_else_def)
  show ?thesis
    using listing fewer all skipped calls answered records
    unfolding call [symmetric]
    by (intro conjI impI allI) (simp_all, (meson le_trans)?)
qed

theorem batch_read_of_associated_deals_witness:
  "get_contact_deals
     (scripted_crm
        [Inr (JObj [(''results'',
                     JArr [JObj [(''toObjectId'', JNum 9001)],
                           JObj [(''toObjectId'', JNum 9002)]])]),
         Inr (JObj [(''status'', JStr ''COMPLETE''),
                    (''results'',
                     JArr [JObj [(''id'', JStr ''9001'')], JObj [(''id'', JStr ''9002'')]])])])
     ''77''
   = (Reply 200
        (JObj [(''results'',
                JArr [JObj [(''id'', JStr ''9001'')], JObj [(''id'', JStr ''9002'')]])]),
      [AxiosGet [Lit ''/crm/v4/objects/contacts/'', Interp (JStr ''77''),
                 Lit ''/associations/deals'']
         [(''limit'', JNum 100)],
       AxiosPost [Lit ''/crm/v3/objects/deals/batch/read'']
         (JObj [(''properties'',
                 JArr [JStr ''dealname'', JStr ''amount'', JStr ''dealstage'',
                       JStr ''closedate'', JStr ''pipeline'']),
                (''inputs'', JArr [JObj [(''id'', JNum 9001)], JObj [(''id'', JNum 9002)]])])])
   \<and> get_contact_deals
       (scripted_crm
          [Inr (JObj [(''results'', JArr [JObj [(''toObjectId'', JNum 0)]])])])
       ''77''
   = (Reply 200 (JObj [(''results'', JArr [])]),
      [AxiosGet [Lit ''/crm/v4/objects/contacts/'', Interp (JStr ''77''),
                 Lit ''/associations/deals'']
         [(''limit'', JNum 100)]])"
proof -
  define assocs where
    "assocs = [JObj [(''toObjectId'', JNum 9001)], JObj [(''toObjectId'', JNum 9002)]]"
  define listing where "listing = JObj [(''results'', JArr assocs)]"
  define records where
    "records = [JObj [(''id'', JStr ''9001'')], JObj [(''id'', JStr ''9002'')]]"
  define batch where
    "batch = JObj [(''status'', JStr ''COMPLETE''), (''results'', JArr records)]"
  define unlinked where "unlinked = [JObj [(''toObjectId'', JNum 0)]]"
  define listing' where "listing' = JObj [(''results'', JArr unlinked)]"
  have sole: "scripted_crm [a] [] call = a" for a call
    by (simp add: scripted_crm_def)
  have first: "scripted_crm [a, b] [] call = a" for a b call
    by (simp add: scripted_crm_def)
  have second: "scripted_crm [a, b] [c] call = b" for a b c call
    by (simp add: scripted_crm_def)
  have listing: "\<not> nullish listing" "lookup_prop listing ''results'' = JArr assocs"
    by (simp_all add: listing_def)
  have assocs: "\<forall>a\<in>set assocs. \<not> nullish a"
    "[JNum 9001, JNum 9002] = filter truthy (map (\<lambda>a. lookup_prop a ''toObjectId'') assocs)"
    by (simp_all add: assocs_def)
  have batch: "\<not> nullish batch" "lookup_prop batch ''results'' = JArr records"
    by (simp_all add: batch_def)
  have listing': "\<not> nullish listing'" "lookup_prop listing' ''results'' = JArr unlinked"
    by (simp_all add: listing'_def)
  have unlinked: "\<forall>a\<in>set unlinked. \<not> nullish a"
    "[] = filter truthy (map (\<lambda>a. lookup_prop a ''toObjectId'') unlinked)"
    by (simp_all add: unlinked_def)
  from batch_read_of_associated_deals
         [where crm = "scripted_crm [Inr listing, Inr batch]" and contactId = "''77''",
          OF first listing assocs]
       second [of "Inr listing" "Inr batch"] batch
  have one: "get_contact_deals (scripted_crm [Inr listing, Inr batch]) ''77'' =
      (Reply 200 (JObj [(''results'', JArr records)]),
       [AxiosGet [Lit ''/crm/v4/objects/contacts/'', Interp (JStr ''77''),
                  Lit ''/associations/deals'']
          [(''limit'', JNum 100)],
        AxiosPost [Lit ''/crm/v3/objects/deals/batch/read'']
          (JObj [(''properties'',
                  JArr [JStr ''dealname'', JStr ''amount'', JStr ''dealstage'',
                        JStr ''closedate'', JStr ''pipeline'']),
                 (''inputs'', JArr [JObj [(''id'', JNum 9001)], JObj [(''id'', JNum 9002)]])])])"
    by (simp add: prod_eq_iff or_else_def)
  from batch_read_of_associated_deals
         [where crm = "scripted_crm [Inr listing']" and contactId = "''77''",
          OF sole listing' unlinked]
  have two: "get_contact_deals (scripted_crm [Inr listing']) ''77'' =
      (Reply 200 (JObj [(''results'', JArr [])]),
       [AxiosGet [Lit ''/crm/v4/objects/contacts/'', Interp (JStr ''77''),
                  Lit ''/associations/deals'']
          [(''limit'', JNum 100)]])"
    by simp
  from one two show ?thesis
    unfolding listing_def assocs_def batch_def records_def listing'_def unlinked_def
    by simp
qed

text \<open>
  The claim as it is written says one batch read, of as many ids as there are
  associations, and as many records or fewer. Here the listing answers with two
  associations, neither with a \<open>toObjectId\<close>: the handler filters them out and makes no
  batch read. And here the listing answers with one association and the batch read with
  two records: the reply has both.
\<close>

theorem batch_read_skipped_counterexample:
  "get_contact_deals
     (scripted_crm
        [Inr (JObj [(''results'',
                     JArr [JObj [(''associationTypes'', JArr [])],
                           JObj [(''associationTypes'', JArr [])]])])])
     ''77''
   = (Reply 200 (JObj [(''results'', JArr [])]),
      [AxiosGet [Lit ''/crm/v4/objects/contacts/'', Interp (JStr ''77''),
                 Lit ''/associations/deals'']
         [(''limit'', JNum 100)]])
   \<and> get_contact_deals
       (scripted_crm
          [Inr (JObj [(''results'', JArr [JObj [(''toObjectId'', JNum 9001)]])]),
           Inr (JObj [(''results'',
                       JArr [JObj [(''id'', JStr ''9001'')], JObj [(''id'', JStr ''9002'')]])])])
       ''77''
   = (Reply 200
        (JObj [(''results'',
                JArr [JObj [(''id'', JStr ''9001'')], JObj [(''id'', JStr ''9002'')]])]),
      [AxiosGet [Lit ''/crm/v4/objects/contacts/'', Interp (JStr ''77''),
                 Lit ''/associations/deals'']
         [(''limit'', JNum 100)],
       AxiosPost [Lit ''/crm/v3/objects/deals/batch/read'']
         (JObj [(''properties'',
                 JArr [JStr ''dealname'', JStr ''amount'', JStr ''dealstage'',
                       JStr ''closedate'', JStr ''pipeline'']),
                (''inputs'', JArr [JObj [(''id'', JNum 9001)]])])])"
  by (simp add: get_contact_deals_def contact_deals_try_def list_associations_call_def
                batch_read_call_def deal_properties_def to_object_ids_def scripted_crm_def
                get_def or_else_def)

end
